theory Spec2Isabelle
  imports Complex_Main "HOL-Library.List_Lexorder" "HOL-Library.Char_ord"
begin

section \<open>Weather station server: labels, training orchestrator, forecast engine\<close>

text \<open>
  Shallow embedding of \<^verbatim>\<open>backend/app.py\<close> (snapshot \<^verbatim>\<open>app_20260112212641.py\<close>):
  the class \<^verbatim>\<open>WeatherAIModel\<close>, the class \<^verbatim>\<open>FuzzyForecastEngine\<close> and the
  training endpoint \<^verbatim>\<open>train_ai_model\<close>.

  Python floats are modelled by \<^typ>\<open>real\<close> (no rounding, no NaN, no infinities);
  every comparison the code makes is then the comparison of the reals.
  Exceptions are values of the type \<open>error\<close>.
\<close>

subsection \<open>Label derivation\<close>

datatype label =
  Polluted | Hot_Humid | Hot_Dry | Very_Hot | Very_Humid | Cool_Humid | Cold | Normal

fun label_str :: "label \<Rightarrow> string" where
  "label_str Polluted = ''Polluted''"
| "label_str Hot_Humid = ''Hot Humid''"
| "label_str Hot_Dry = ''Hot Dry''"
| "label_str Very_Hot = ''Very Hot''"
| "label_str Very_Humid = ''Very Humid''"
| "label_str Cool_Humid = ''Cool Humid''"
| "label_str Cold = ''Cold''"
| "label_str Normal = ''Normal''"

datatype tband = T_cold | T_cool | T_normal | T_warm | T_hot | T_very_hot

datatype hband = H_dry | H_normal | H_humid | H_very_humid

text \<open>Truthiness of a Python float: \<^verbatim>\<open>air_quality and ...\<close> is false for \<open>0.0\<close>.\<close>

definition truthy :: "real \<Rightarrow> bool" where
  "truthy v \<longleftrightarrow> v \<noteq> 0"

text \<open>\<^verbatim>\<open>WeatherAIModel._label_from_features\<close> (lines 808 to 846).\<close>

definition label_from_features :: "real \<Rightarrow> real \<Rightarrow> real \<Rightarrow> label" where
  "label_from_features temp humidity air_quality =
     (if truthy air_quality \<and> air_quality > 300 then Polluted
      else
        let tband =
              (if temp < 15 then T_cold
               else if temp < 20 then T_cool
               else if temp < 25 then T_normal
               else if temp < 30 then T_warm
               else if temp < 35 then T_hot
               else T_very_hot);
            hband =
              (if humidity < 30 then H_dry
               else if humidity < 60 then H_normal
               else if humidity < 80 then H_humid
               else H_very_humid)
        in
          if tband \<in> set [T_very_hot, T_hot] \<and> hband \<in> set [H_humid, H_very_humid] then Hot_Humid
          else if tband \<in> set [T_very_hot, T_hot] \<and> hband \<in> set [H_dry] then Hot_Dry
          else if tband \<in> set [T_very_hot, T_hot] \<and> hband \<in> set [H_normal] then Very_Hot
          else if tband \<in> set [T_warm] \<and> hband \<in> set [H_very_humid] then Very_Humid
          else if tband \<in> set [T_cold, T_cool] \<and> hband \<in> set [H_very_humid, H_humid] then Cool_Humid
          else if tband \<in> set [T_cold, T_cool] then Cold
          else Normal)"

text \<open>
  Lines 909 to 949: the \<^verbatim>\<open>if\<close>/\<^verbatim>\<open>elif\<close> cascade that sets \<^verbatim>\<open>condition\<close>. It stands
  after the \<^verbatim>\<open>return\<close> of \<^verbatim>\<open>_oversample_minority\<close> (see below), where no run reaches it.
\<close>

definition unreachable_condition :: "real \<Rightarrow> real \<Rightarrow> real \<Rightarrow> label" where
  "unreachable_condition temp humidity air_quality =
     (if truthy air_quality \<and> air_quality > 300 then Polluted
      else
        let tband =
              (if temp < 15 then T_cold
               else if temp < 20 then T_cool
               else if temp < 25 then T_normal
               else if temp < 30 then T_warm
               else if temp < 35 then T_hot
               else T_very_hot);
            hband =
              (if humidity < 30 then H_dry
               else if humidity < 60 then H_normal
               else if humidity < 80 then H_humid
               else H_very_humid)
        in
          if tband \<in> set [T_very_hot, T_hot] \<and> hband \<in> set [H_humid, H_very_humid] then Hot_Humid
          else if tband \<in> set [T_very_hot, T_hot] \<and> hband \<in> set [H_dry] then Hot_Dry
          else if tband \<in> set [T_very_hot, T_hot] \<and> hband \<in> set [H_normal] then Very_Hot
          else if tband \<in> set [T_warm] \<and> hband \<in> set [H_very_humid] then Very_Humid
          else if tband \<in> set [T_cold, T_cool] \<and> hband \<in> set [H_very_humid, H_humid] then Cool_Humid
          else if tband \<in> set [T_cold, T_cool] then Cold
          else Normal)"

subsection \<open>Sensor readings and \<^verbatim>\<open>prepare_training_data\<close>\<close>

text \<open>
  A raw timestamp as it sits in a reading: absent (\<^verbatim>\<open>None\<close>), a number (epoch seconds),
  a \<^verbatim>\<open>datetime\<close> (here: its instant in seconds since the epoch, UTC) or a string.
\<close>

datatype ts_raw = TsNone | TsNum real | TsDatetime real | TsStr string

text \<open>
  A reading is a dict. Each numeric field holds \<open>Some x\<close> when \<^verbatim>\<open>float(v)\<close> succeeds with
  \<open>x\<close>, and \<open>None\<close> when the key is missing or \<^verbatim>\<open>float(v)\<close> raises.
\<close>

record reading =
  temperature :: "real option"
  humidity :: "real option"
  air_quality :: "real option"
  light_intensity :: "real option"
  battery_voltage :: "real option"
  timestamp :: ts_raw
  ts :: ts_raw
  time :: ts_raw

text \<open>A feature vector: temperature, humidity, air quality, light intensity, battery voltage.\<close>

type_synonym features = "real \<times> real \<times> real \<times> real \<times> real"

text \<open>The three parallel arrays \<^verbatim>\<open>X, y, timestamps\<close>.\<close>

type_synonym prepared = "features list \<times> label list \<times> ts_raw list"

text \<open>
  \<^verbatim>\<open>WeatherAIModel.prepare_training_data\<close> (lines 801 to 806). In this snapshot the body of
  the method is its docstring and nothing else: the next line of the class is
  \<^verbatim>\<open>def _label_from_features\<close>. A Python function whose body is only a docstring returns
  \<^verbatim>\<open>None\<close>, here the value \<open>None\<close> of the option type.
\<close>

definition prepare_training_data :: "reading list \<Rightarrow> prepared option" where
  "prepare_training_data data = None"

text \<open>
  The statements that used to be the body of \<^verbatim>\<open>prepare_training_data\<close> are lines 888 to 957.
  They follow the last \<^verbatim>\<open>return\<close> of \<^verbatim>\<open>_oversample_minority\<close> (line 887) at the
  indentation of that method's body, so they belong to \<^verbatim>\<open>_oversample_minority\<close> and no
  run reaches them. They are embedded here under their own names, to record what they would
  compute on a list \<open>data\<close>.
\<close>

definition to_float_safe :: "real option \<Rightarrow> real" where
  "to_float_safe v = (case v of None \<Rightarrow> 0 | Some x \<Rightarrow> x)"

text \<open>Truthiness of a raw timestamp, for \<^verbatim>\<open>a or b or c\<close> (line 952).\<close>

fun ts_truthy :: "ts_raw \<Rightarrow> bool" where
  "ts_truthy TsNone = False"
| "ts_truthy (TsNum x) = (x \<noteq> 0)"
| "ts_truthy (TsDatetime d) = True"
| "ts_truthy (TsStr s) = (s \<noteq> [])"

definition py_or :: "ts_raw \<Rightarrow> ts_raw \<Rightarrow> ts_raw" where
  "py_or a b = (if ts_truthy a then a else b)"

text \<open>Lines 898 to 953: one turn of the loop \<^verbatim>\<open>for item in data\<close>.\<close>

definition unreachable_row :: "reading \<Rightarrow> features \<times> label \<times> ts_raw" where
  "unreachable_row item =
     (let temp = to_float_safe (temperature item);
          hum = to_float_safe (humidity item);
          aq = to_float_safe (air_quality item);
          light = to_float_safe (light_intensity item);
          battery = to_float_safe (battery_voltage item)
      in ((temp, hum, aq, light, battery),
          unreachable_condition temp hum aq,
          py_or (timestamp item) (py_or (ts item) (time item))))"

text \<open>Lines 888 to 957.\<close>

definition unreachable_block :: "reading list \<Rightarrow> prepared" where
  "unreachable_block data =
     (let rows = map unreachable_row data
      in (map fst rows, map (fst \<circ> snd) rows, map (snd \<circ> snd) rows))"

subsection \<open>Errors, counters and numpy helpers\<close>

datatype error = UnboundLocalError | TypeError | IndexError | ValueError | OSError

datatype eval_mode = VALID | NON_VALID | UNKNOWN

datatype status = OK | DATA_TOO_SMALL | DATA_INSUFFICIENT_VARIETY

text \<open>Reading a local variable: \<open>None\<close> is a local that has not been assigned yet.\<close>

definition read_local :: "'a option \<Rightarrow> error + 'a" where
  "read_local v = (case v of None \<Rightarrow> Inl UnboundLocalError | Some x \<Rightarrow> Inr x)"

text \<open>
  Unpacking \<^verbatim>\<open>X, y, timestamps = value\<close>: a value that is \<^verbatim>\<open>None\<close> cannot be unpacked and
  raises \<^verbatim>\<open>TypeError\<close>.
\<close>

definition unpack3 :: "('a \<times> 'b \<times> 'c) option \<Rightarrow> error + ('a \<times> 'b \<times> 'c)" where
  "unpack3 v = (case v of None \<Rightarrow> Inl TypeError | Some t \<Rightarrow> Inr t)"

text \<open>\<^verbatim>\<open>collections.Counter\<close>: keys in the order of their first occurrence.\<close>

definition first_seen :: "'a list \<Rightarrow> 'a list" where
  "first_seen ys = rev (remdups (rev ys))"

definition Counter :: "'a list \<Rightarrow> ('a \<times> nat) list" where
  "Counter ys = map (\<lambda>l. (l, count_list ys l)) (first_seen ys)"

text \<open>
  \<^verbatim>\<open>Counter.most_common(1)\<close>: the first item, in key order, with the largest count;
  the empty list for an empty counter (indexing it with \<^verbatim>\<open>[0]\<close> then raises).
\<close>

fun most_common1 :: "('a \<times> nat) list \<Rightarrow> ('a \<times> nat) option" where
  "most_common1 [] = None"
| "most_common1 (p # ps) = Some (fold (\<lambda>q best. if snd q > snd best then q else best) ps p)"

text \<open>
  \<^verbatim>\<open>numpy.unique\<close> on an array of labels: the distinct labels in ascending string order,
  \<^verbatim>\<open>'Cold' < 'Cool Humid' < 'Hot Dry' < 'Hot Humid' < 'Normal' < 'Polluted' < 'Very Hot' < 'Very Humid'\<close>.
\<close>

fun label_rank :: "label \<Rightarrow> nat" where
  "label_rank Cold = 0"
| "label_rank Cool_Humid = 1"
| "label_rank Hot_Dry = 2"
| "label_rank Hot_Humid = 3"
| "label_rank Normal = 4"
| "label_rank Polluted = 5"
| "label_rank Very_Hot = 6"
| "label_rank Very_Humid = 7"

definition np_unique :: "label list \<Rightarrow> label list" where
  "np_unique ys = sort_key label_rank (remdups ys)"

text \<open>The dict comprehension \<^verbatim>\<open>{lbl: int(np.sum(ys == lbl)) for lbl in labels}\<close>.\<close>

definition counts_for :: "label list \<Rightarrow> label list \<Rightarrow> (label \<times> nat) list" where
  "counts_for labels ys = map (\<lambda>lbl. (lbl, count_list ys lbl)) labels"

text \<open>Indexing an array with a list of indices, \<^verbatim>\<open>X[idx]\<close>: out of range raises.\<close>

definition np_take :: "'a list \<Rightarrow> nat list \<Rightarrow> error + 'a list" where
  "np_take xs idx =
     (if list_all (\<lambda>i. i < length xs) idx then Inr (map ((!) xs) idx) else Inl IndexError)"

subsection \<open>Augmentor\<close>

text \<open>
  The generator \<^verbatim>\<open>rng\<close> is a sequence \<open>z\<close> of standard normal variates and a position
  \<open>k\<close> in it; \<^verbatim>\<open>rng.normal(0, sigma)\<close> is \<open>sigma * z k\<close> and advances the position.
  A call with the list of the five standard deviations draws five variates in order.
\<close>

definition add5 :: "features \<Rightarrow> features \<Rightarrow> features" where
  "add5 u v =
     (case u of (u1, u2, u3, u4, u5) \<Rightarrow>
      case v of (v1, v2, v3, v4, v5) \<Rightarrow> (u1 + v1, u2 + v2, u3 + v3, u4 + v4, u5 + v5))"

definition jitter :: "(nat \<Rightarrow> real) \<Rightarrow> nat \<Rightarrow> features" where
  "jitter z k = (0.5 * z k, 1.0 * z (k + 1), 5.0 * z (k + 2), 50.0 * z (k + 3), 0.02 * z (k + 4))"

text \<open>
  \<^verbatim>\<open>_generate_synthetic_features\<close> (lines 848 to 861). An archetype is its five values
  (the dict literals of \<^verbatim>\<open>train_model\<close> give all five keys).
\<close>

definition synthetic_row :: "features \<Rightarrow> (nat \<Rightarrow> real) \<Rightarrow> nat \<Rightarrow> features \<times> label" where
  "synthetic_row arch z k =
     (case add5 arch (jitter z k) of
        (temp, hum, aq, light, battery) \<Rightarrow>
          ((temp, hum, aq, light, battery), label_from_features temp hum aq))"

definition generate_synthetic_features ::
  "features list \<Rightarrow> (nat \<Rightarrow> real) \<Rightarrow> nat \<Rightarrow> nat \<Rightarrow> (features list \<times> label list) \<times> nat"
where
  "generate_synthetic_features archetypes z k n_each =
     (let turns = concat (map (replicate n_each) archetypes);
          rows = map (\<lambda>(i, arch). synthetic_row arch z (k + 5 * i)) (enumerate 0 turns)
      in ((map fst rows, map snd rows), k + 5 * length turns))"

definition archetypes :: "features list" where
  "archetypes =
     [(10, 50, 50, 100, 3.8),
      (38, 35, 80, 1200, 3.9),
      (26, 85, 90, 800, 4.0),
      (24, 60, 80, 500, 3.8)]"

text \<open>
  \<^verbatim>\<open>_oversample_minority\<close> (lines 863 to 887). One turn of the loop over the labels of
  \<^verbatim>\<open>np.unique(y_train)\<close>: the rows it appends and the new position of the generator.
\<close>

definition oversample_label ::
  "features list \<Rightarrow> label list \<Rightarrow> (nat \<Rightarrow> real) \<Rightarrow> nat \<Rightarrow> int \<Rightarrow> label
     \<Rightarrow> (features \<times> label) list \<times> nat"
where
  "oversample_label X_train y_train z k min_per_class lbl =
     (let count = int (count_list y_train lbl);
          samples = map fst (filter (\<lambda>(x, l). l = lbl) (zip X_train y_train))
      in if count \<ge> min_per_class \<or> samples = [] then ([], k)
         else
           let needed = nat (min_per_class - count)
           in (map (\<lambda>i. (add5 (samples ! (i mod length samples)) (jitter z (k + 5 * i)), lbl))
                 [0..<needed],
               k + 5 * needed))"

fun oversample_loop ::
  "features list \<Rightarrow> label list \<Rightarrow> (nat \<Rightarrow> real) \<Rightarrow> int \<Rightarrow> label list \<Rightarrow> nat
     \<Rightarrow> (features \<times> label) list \<times> nat"
where
  "oversample_loop X_train y_train z min_per_class [] k = ([], k)"
| "oversample_loop X_train y_train z min_per_class (lbl # lbls) k =
     (case oversample_label X_train y_train z k min_per_class lbl of
        (new, k') \<Rightarrow>
          (case oversample_loop X_train y_train z min_per_class lbls k' of
             (rest, k'') \<Rightarrow> (new @ rest, k'')))"

definition oversample_minority ::
  "features list \<Rightarrow> label list \<Rightarrow> (nat \<Rightarrow> real) \<Rightarrow> nat \<Rightarrow> int
     \<Rightarrow> (features list \<times> label list) \<times> nat"
where
  "oversample_minority X_train y_train z k min_per_class =
     (case oversample_loop X_train y_train z min_per_class (np_unique y_train) k of
        (new, k') \<Rightarrow> ((X_train @ map fst new, y_train @ map snd new), k'))"

subsection \<open>Environment and state of the training orchestrator\<close>

text \<open>
  The metrics dict \<^verbatim>\<open>self.last_metrics\<close>: empty (as set by \<^verbatim>\<open>__init__\<close>), the short dict of
  a rejected run, or the report of a run that got through the evaluation. A numeric entry
  of the report is \<open>Some x\<close> for a float and \<open>None\<close> for \<^verbatim>\<open>None\<close>.
\<close>

record report =
  status :: status
  evaluation_mode :: eval_mode
  metrics_trusted :: bool
  synthetic_used :: bool
  warnings :: "string list"
  train_accuracy :: "real option"
  test_accuracy :: "real option"
  macro_f1 :: "real option"
  balanced_accuracy :: "real option"
  baseline_majority_accuracy :: "real option"
  confusion_matrix :: "nat list list"
  labels :: "label list"
  all_counts :: "(label \<times> nat) list"
  train_counts :: "(label \<times> nat) list"
  test_counts :: "(label \<times> nat) list"

datatype metrics =
  No_metrics
| Rejected status eval_mode "(label \<times> nat) list"
| Report report

text \<open>
  \<^verbatim>\<open>self.model_meta\<close>. The three keys that \<^verbatim>\<open>save_model\<close> adds (\<^verbatim>\<open>model_path\<close>,
  \<^verbatim>\<open>scaler_path\<close>, \<^verbatim>\<open>saved_at\<close>) are the field \<open>saved_at\<close>; the paths are constants.
\<close>

record meta =
  version :: string
  training_seed :: int
  training_samples :: nat
  training_samples_train :: nat
  training_samples_test :: nat
  meta_synthetic_used :: bool
  meta_evaluation_mode :: eval_mode
  meta_metrics_trusted :: bool
  saved_at :: "string option"

text \<open>The content of the metadata file: the training metadata, if any, and the save time.\<close>

datatype meta_json = Meta_json "meta option" string

text \<open>
  The files under the models directory; \<open>None\<close> is a file that does not exist.
  \<open>'m\<close> is a classifier object, \<open>'sc\<close> a scaler object.
\<close>

record ('sc, 'm) disk =
  model_file :: "'m option"
  model_file_tmp :: "'m option"
  scaler_file :: "'sc option"
  scaler_file_tmp :: "'sc option"
  meta_file :: "meta_json option"

text \<open>The attributes of a \<^verbatim>\<open>WeatherAIModel\<close> and the files it owns.\<close>

record ('sc, 'm) model_state =
  model :: 'm
  scaler :: 'sc
  trained :: bool
  model_trained_at :: "string option"
  accuracy :: "real option"
  last_metrics :: metrics
  model_meta :: "meta option"
  files :: "('sc, 'm) disk"

text \<open>The file-system operations of \<^verbatim>\<open>save_model\<close>, in the order in which it makes them.\<close>

datatype save_step = Mkdir | Dump_model | Replace_model | Dump_scaler | Replace_scaler | Write_meta

text \<open>
  What a training run reads from outside the object: the global buffer, the configuration,
  the clock, and the libraries. A library call that can raise returns an option, \<open>None\<close>
  for the exception. \<open>os_raises\<close> tells which file-system operation raises \<^verbatim>\<open>OSError\<close>
  in this run; an operation that raises has no effect of its own on the files.
\<close>

record ('sc, 'm) env =
  local_data :: "reading list"
  MIN_TRAIN_SAMPLES_PER_CLASS :: int
  time_time :: int
  default_rng :: "int \<Rightarrow> nat \<Rightarrow> real"
  iso_now :: string
  uuid4 :: string
  fromtimestamp :: "real \<Rightarrow> real option"
  fromisoformat :: "string \<Rightarrow> real option"
  scaler_fit_transform :: "features list \<Rightarrow> ('sc \<times> features list) option"
  scaler_transform :: "'sc \<Rightarrow> features list \<Rightarrow> features list option"
  model_fit :: "features list \<Rightarrow> label list \<Rightarrow> 'm option"
  model_predict :: "'m \<Rightarrow> features list \<Rightarrow> label list option"
  f1_score :: "label list \<Rightarrow> label list \<Rightarrow> real"
  balanced_accuracy_score :: "label list \<Rightarrow> label list \<Rightarrow> real"
  sk_confusion_matrix :: "label list \<Rightarrow> label list \<Rightarrow> label list \<Rightarrow> nat list list"
  os_raises :: "save_step \<Rightarrow> bool"

subsection \<open>Persistence\<close>

text \<open>
  \<^verbatim>\<open>_atomic_write\<close> (lines 771 to 775) for the model and for the scaler: dump to the
  temporary file, then rename it over the target. The result is the exception, if one was
  raised, and the files as they are at that moment.
\<close>

definition atomic_write_model ::
  "('sc, 'm) env \<Rightarrow> 'm \<Rightarrow> ('sc, 'm) disk \<Rightarrow> error option \<times> ('sc, 'm) disk"
where
  "atomic_write_model e obj d =
     (if os_raises e Dump_model then (Some OSError, d)
      else
        let d1 = d\<lparr>model_file_tmp := Some obj\<rparr>
        in if os_raises e Replace_model then (Some OSError, d1)
           else (None, d1\<lparr>model_file := model_file_tmp d1, model_file_tmp := None\<rparr>))"

definition atomic_write_scaler ::
  "('sc, 'm) env \<Rightarrow> 'sc \<Rightarrow> ('sc, 'm) disk \<Rightarrow> error option \<times> ('sc, 'm) disk"
where
  "atomic_write_scaler e obj d =
     (if os_raises e Dump_scaler then (Some OSError, d)
      else
        let d1 = d\<lparr>scaler_file_tmp := Some obj\<rparr>
        in if os_raises e Replace_scaler then (Some OSError, d1)
           else (None, d1\<lparr>scaler_file := scaler_file_tmp d1, scaler_file_tmp := None\<rparr>))"

text \<open>
  \<^verbatim>\<open>save_model\<close> (lines 777 to 799). Every exception is caught and turned into the result
  \<^verbatim>\<open>False\<close>. \<^verbatim>\<open>meta.update\<close> changes \<^verbatim>\<open>self.model_meta\<close> in place when that attribute
  holds a dict.
\<close>

definition save_model ::
  "('sc, 'm) env \<Rightarrow> ('sc, 'm) model_state \<Rightarrow> bool \<times> ('sc, 'm) model_state"
where
  "save_model e s =
     (if os_raises e Mkdir then (False, s)
      else
        case atomic_write_model e (model s) (files s) of
          (Some err, d1) \<Rightarrow> (False, s\<lparr>files := d1\<rparr>)
        | (None, d1) \<Rightarrow>
            (case atomic_write_scaler e (scaler s) d1 of
               (Some err, d2) \<Rightarrow> (False, s\<lparr>files := d2\<rparr>)
             | (None, d2) \<Rightarrow>
                 let meta' = map_option (\<lambda>m. m\<lparr>saved_at := Some (iso_now e)\<rparr>) (model_meta s);
                     s1 = s\<lparr>files := d2, model_meta := meta'\<rparr>
                 in if os_raises e Write_meta then (False, s1)
                    else (True, s1\<lparr>files := d2\<lparr>meta_file := Some (Meta_json meta' (iso_now e))\<rparr>\<rparr>)))"

subsection \<open>Chronological split\<close>

text \<open>
  The local function \<^verbatim>\<open>_parse_ts\<close> (lines 1015 to 1036). A resolved instant is a number of
  seconds since the epoch. \<open>fromtimestamp\<close> and \<open>fromisoformat\<close> are the library's
  functions on a number and a string taken from a reading; \<open>None\<close> is an exception,
  which sends \<^verbatim>\<open>_parse_ts\<close> to its fallback. The fallback, and the case of an absent
  timestamp, is \<^verbatim>\<open>datetime.fromtimestamp(idx, tz=timezone.utc)\<close> for the insertion index:
  the instant \<open>idx\<close> seconds after the epoch.
\<close>

definition replace_Z :: "string \<Rightarrow> string" where
  "replace_Z s = concat (map (\<lambda>c. if c = CHR ''Z'' then ''+00:00'' else [c]) s)"

definition endswith_Z :: "string \<Rightarrow> bool" where
  "endswith_Z s \<longleftrightarrow> s \<noteq> [] \<and> last s = CHR ''Z''"

definition parse_ts :: "('sc, 'm) env \<Rightarrow> ts_raw \<Rightarrow> nat \<Rightarrow> real" where
  "parse_ts e ts_raw idx =
     (let attempt =
            (case ts_raw of
               TsNone \<Rightarrow> Some (real idx)
             | TsNum x \<Rightarrow> fromtimestamp e x
             | TsDatetime d \<Rightarrow> Some d
             | TsStr str \<Rightarrow> fromisoformat e (if endswith_Z str then replace_Z str else str))
      in case attempt of
           Some dt \<Rightarrow> dt
         | None \<Rightarrow> real idx)"

text \<open>The list comprehension of line 1038.\<close>

definition time_keys :: "('sc, 'm) env \<Rightarrow> ts_raw list \<Rightarrow> (real \<times> nat) list" where
  "time_keys e timestamps =
     map (\<lambda>(i, ts_raw). (parse_ts e ts_raw i, i)) (enumerate 0 timestamps)"

text \<open>
  Line 1040: \<^verbatim>\<open>sorted\<close> is stable, as \<open>sort_key\<close> is. All keys are naive datetimes, so
  comparing them never raises \<^verbatim>\<open>TypeError\<close> and the fallback of lines 1041 to 1044 is
  never taken.
\<close>

definition sorted_indices_of :: "(real \<times> nat) list \<Rightarrow> nat list" where
  "sorted_indices_of keys = map snd (sort_key fst keys)"

text \<open>
  Line 1045, on Python's integers: \<^verbatim>\<open>max(1, min(n - 1, int(n * 0.8)))\<close>; \<^verbatim>\<open>int\<close>
  truncates, which for a number that is not negative is the floor. The product is taken
  over the reals here. (The double nearest to 0.8 exceeds it by 0.4 units in the last
  place, so for a multiple of 5 the floating-point product rounds to the integer
  \<open>4n/5\<close> itself, and for any other \<open>n\<close> it stays within the same unit interval:
  the float computation gives the same integer.)
\<close>

definition split_idx :: "nat \<Rightarrow> int" where
  "split_idx n = max 1 (min (int n - 1) \<lfloor>real n * 0.8\<rfloor>)"

text \<open>The four arrays of lines 1049 and 1050.\<close>

record partition =
  X_train :: "features list"
  y_train :: "label list"
  X_test :: "features list"
  y_test :: "label list"

definition chrono_indices :: "(real \<times> nat) list \<Rightarrow> nat list \<times> nat list" where
  "chrono_indices keys =
     (let sorted_indices = sorted_indices_of keys;
          split = nat (split_idx (length sorted_indices))
      in (take split sorted_indices, drop split sorted_indices))"

definition chrono_split ::
  "('sc, 'm) env \<Rightarrow> features list \<Rightarrow> label list \<Rightarrow> ts_raw list \<Rightarrow> error + partition"
where
  "chrono_split e X y timestamps =
     (case chrono_indices (time_keys e timestamps) of
        (train_idx, test_idx) \<Rightarrow>
          (case (np_take X train_idx, np_take X test_idx,
                 np_take y train_idx, np_take y test_idx) of
             (Inr Xtr, Inr Xte, Inr ytr, Inr yte) \<Rightarrow>
               Inr \<lparr>X_train = Xtr, y_train = ytr, X_test = Xte, y_test = yte\<rparr>
           | _ \<Rightarrow> Inl IndexError))"

subsection \<open>Augmentation step\<close>

text \<open>
  Lines 1052 to 1061: the synthetic samples (when requested) and the minority oversampling,
  as a step on the four arrays and the position of the generator.
\<close>

definition augment ::
  "('sc, 'm) env \<Rightarrow> (nat \<Rightarrow> real) \<Rightarrow> bool \<Rightarrow> partition \<Rightarrow> partition"
where
  "augment e z needs_synthetic p =
     (let (p1, k1) =
            (if needs_synthetic then
               (case generate_synthetic_features archetypes z 0 3 of
                  ((syn_X, syn_y), k) \<Rightarrow>
                    (p\<lparr>X_train := X_train p @ syn_X, y_train := y_train p @ syn_y\<rparr>, k))
             else (p, 0));
          min_per = MIN_TRAIN_SAMPLES_PER_CLASS e
      in case oversample_minority (X_train p1) (y_train p1) z k1 min_per of
           ((X', y'), k2) \<Rightarrow> p1\<lparr>X_train := X', y_train := y'\<rparr>)"

subsection \<open>Fit and evaluation\<close>

text \<open>\<^verbatim>\<open>accuracy_score\<close>, which \<^verbatim>\<open>model.score(X, y)\<close> applies to \<^verbatim>\<open>y\<close> and \<^verbatim>\<open>model.predict(X)\<close>.\<close>

definition accuracy_score :: "label list \<Rightarrow> label list \<Rightarrow> real" where
  "accuracy_score y_true y_pred =
     real (length (filter (\<lambda>(a, b). a = b) (zip y_true y_pred))) / real (length y_true)"

definition score :: "('sc, 'm) env \<Rightarrow> 'm \<Rightarrow> features list \<Rightarrow> label list \<Rightarrow> real option" where
  "score e m X y = map_option (accuracy_score y) (model_predict e m X)"

text \<open>Lines 1083 to 1088: the majority label of the training labels, counted in the test set.\<close>

definition baseline_majority :: "label list \<Rightarrow> label list \<Rightarrow> error + real" where
  "baseline_majority ytr yte =
     (case most_common1 (Counter ytr) of
        None \<Rightarrow> Inl IndexError
      | Some (majority_label, majority_count_train) \<Rightarrow>
          let majority_in_test = (if length yte > 0 then count_list yte majority_label else 0);
              baseline_acc = (if length yte > 0 then real majority_in_test / real (length yte) else 0)
          in Inr (min 1 baseline_acc))"

record evaluation =
  ev_train_score :: real
  ev_test_score :: real
  ev_macro_f1 :: real
  ev_bal_acc :: real
  ev_cm :: "nat list list"
  ev_baseline_acc :: real

text \<open>
  Lines 1068 to 1088. \<^verbatim>\<open>fit_transform\<close> and \<^verbatim>\<open>fit\<close> change \<^verbatim>\<open>self.scaler\<close> and
  \<^verbatim>\<open>self.model\<close> in place; the state returned with an exception is the state at the moment
  it is raised (a call that raises is taken to leave its object as it was).
\<close>

definition fit_and_evaluate ::
  "('sc, 'm) env \<Rightarrow> partition \<Rightarrow> label list \<Rightarrow> ('sc, 'm) model_state
     \<Rightarrow> (error + evaluation) \<times> ('sc, 'm) model_state"
where
  "fit_and_evaluate e p unique_labels s =
     (case scaler_fit_transform e (X_train p) of
        None \<Rightarrow> (Inl ValueError, s)
      | Some (sc, X_train_scaled) \<Rightarrow>
          (let s1 = s\<lparr>scaler := sc\<rparr>
           in (case scaler_transform e sc (X_test p) of
                 None \<Rightarrow> (Inl ValueError, s1)
               | Some X_test_scaled \<Rightarrow>
                   (case model_fit e X_train_scaled (y_train p) of
                      None \<Rightarrow> (Inl ValueError, s1)
                    | Some m \<Rightarrow>
                        (let s2 = s1\<lparr>model := m\<rparr>
                         in (case (model_predict e m X_test_scaled,
                                   score e m X_train_scaled (y_train p),
                                   score e m X_test_scaled (y_test p)) of
                               (Some y_test_pred, Some train_score, Some test_score) \<Rightarrow>
                                 (case baseline_majority (y_train p) (y_test p) of
                                    Inl err \<Rightarrow> (Inl err, s2)
                                  | Inr baseline_acc \<Rightarrow>
                                      (Inr \<lparr>ev_train_score = train_score,
                                            ev_test_score = test_score,
                                            ev_macro_f1 = f1_score e (y_test p) y_test_pred,
                                            ev_bal_acc = balanced_accuracy_score e (y_test p) y_test_pred,
                                            ev_cm = sk_confusion_matrix e (y_test p) y_test_pred unique_labels,
                                            ev_baseline_acc = baseline_acc\<rparr>, s2))
                             | _ \<Rightarrow> (Inl ValueError, s2)))))))"

subsection \<open>Validity gate, report and commit\<close>

definition warning_minor :: string where
  "warning_minor = ''Kelas minor <2; evaluasi tidak representatif (NON_VALID). Tidak pakai stratify.''"

definition warning_test :: string where
  "warning_test = ''Distribusi test set tidak memadai (kelas <2). Metrik tidak representatif.''"

text \<open>Lines 1090 to 1094: the test of the evaluation's validity on the test labels.\<close>

definition test_set_inadequate :: "label list \<Rightarrow> bool" where
  "test_set_inadequate yte \<longleftrightarrow>
     length (np_unique yte) < 2 \<or> list_ex (\<lambda>cnt. cnt < 2) (map snd (counts_for (np_unique yte) yte))"

text \<open>
  Lines 1090 to 1142: from the mode and the warnings collected so far, the evaluation and the
  label counts to the dict assigned to \<^verbatim>\<open>self.last_metrics\<close>.
\<close>

definition make_report ::
  "eval_mode \<Rightarrow> string list \<Rightarrow> bool \<Rightarrow> evaluation \<Rightarrow> label list \<Rightarrow> label list \<Rightarrow> partition \<Rightarrow> report"
where
  "make_report mode_in warnings_in synthetic ev unique_labels y p =
     (let inadequate = test_set_inadequate (y_test p);
          mode = (if inadequate then NON_VALID else mode_in);
          warning_msgs = (if inadequate then warnings_in @ [warning_test] else warnings_in);
          trusted = (mode = VALID);
          display_test_score = (if trusted then Some (ev_test_score ev) else None);
          display_macro_f1 = (if trusted then Some (ev_macro_f1 ev) else None);
          display_bal_acc = (if trusted then Some (ev_bal_acc ev) else None);
          display_baseline =
            (if trusted then Some (ev_baseline_acc ev) else Some (min 1 (ev_baseline_acc ev)))
      in \<lparr>status = OK,
          evaluation_mode = mode,
          metrics_trusted = trusted,
          synthetic_used = synthetic,
          warnings = warning_msgs,
          train_accuracy = Some (ev_train_score ev),
          test_accuracy = display_test_score,
          macro_f1 = display_macro_f1,
          balanced_accuracy = display_bal_acc,
          baseline_majority_accuracy = display_baseline,
          confusion_matrix = ev_cm ev,
          labels = unique_labels,
          all_counts = counts_for unique_labels y,
          train_counts = counts_for (np_unique (y_train p)) (y_train p),
          test_counts = counts_for (np_unique (y_test p)) (y_test p)\<rparr>)"

text \<open>
  Lines 1122 to 1161: the attributes are assigned first, \<^verbatim>\<open>self.trained = True\<close> among
  them, and \<^verbatim>\<open>save_model\<close> is called last.
\<close>

definition commit ::
  "('sc, 'm) env \<Rightarrow> report \<Rightarrow> evaluation \<Rightarrow> nat \<Rightarrow> partition \<Rightarrow> ('sc, 'm) model_state
     \<Rightarrow> bool \<times> ('sc, 'm) model_state"
where
  "commit e r ev n p s =
     (let s1 = s\<lparr>trained := True,
                 model_trained_at := Some (iso_now e),
                 accuracy := (if metrics_trusted r then Some (ev_test_score ev) else None),
                 last_metrics := Report r,
                 model_meta := Some \<lparr>version = uuid4 e,
                                      training_seed = time_time e,
                                      training_samples = n,
                                      training_samples_train = length (y_train p),
                                      training_samples_test = length (y_test p),
                                      meta_synthetic_used = synthetic_used r,
                                      meta_evaluation_mode = evaluation_mode r,
                                      meta_metrics_trusted = metrics_trusted r,
                                      saved_at = None\<rparr>\<rparr>
      in case save_model e s1 of
           (False, s2) \<Rightarrow> (False, s2)
         | (True, s2) \<Rightarrow> (True, s2))"

subsection \<open>\<^verbatim>\<open>train_model\<close>\<close>

text \<open>
  Lines 979 to 1161: \<^verbatim>\<open>train_model\<close> from the statement after the call of
  \<^verbatim>\<open>prepare_training_data\<close> on, for the arrays \<^verbatim>\<open>X, y, timestamps\<close> that the call would
  have to deliver. The result is the exception or the returned boolean, and the state.
\<close>

definition train_prepared ::
  "('sc, 'm) env \<Rightarrow> bool \<Rightarrow> features list \<Rightarrow> label list \<Rightarrow> ts_raw list \<Rightarrow> ('sc, 'm) model_state
     \<Rightarrow> (error + bool) \<times> ('sc, 'm) model_state"
where
  "train_prepared e force_single_class X y timestamps s =
     (let label_counts = Counter y;
          seed = time_time e;
          z = default_rng e seed;
          unique_labels = np_unique y
      in
        if length unique_labels < 2 \<and> \<not> force_single_class then
          (Inr False,
           s\<lparr>last_metrics := Rejected DATA_INSUFFICIENT_VARIETY NON_VALID label_counts\<rparr>)
        else
          let needs_synthetic = (length unique_labels < 2 \<and> force_single_class);
              mode0 = (if needs_synthetic then NON_VALID else VALID);
              minor = list_ex (\<lambda>count. count < 2) (map snd (counts_for unique_labels y));
              mode1 = (if minor then NON_VALID else mode0);
              warning_msgs = (if minor then [warning_minor] else [])
          in
            (case chrono_split e X y timestamps of
               Inl err \<Rightarrow> (Inl err, s)
             | Inr p0 \<Rightarrow>
                 (let p = augment e z needs_synthetic p0
                  in (case fit_and_evaluate e p unique_labels s of
                        (Inl err, s1) \<Rightarrow> (Inl err, s1)
                      | (Inr ev, s1) \<Rightarrow>
                          (case commit e
                                  (make_report mode1 warning_msgs needs_synthetic ev unique_labels y p)
                                  ev (length y) p s1 of
                             (ok, s2) \<Rightarrow> (Inr ok, s2))))))"

text \<open>
  The local \<^verbatim>\<open>y\<close> of \<^verbatim>\<open>train_model\<close> gets its first value at line 978. Before that line it
  is unassigned.
\<close>

definition y_before_line_978 :: "label list option" where
  "y_before_line_978 = None"

text \<open>
  The \<^verbatim>\<open>try\<close> block of \<^verbatim>\<open>train_model\<close> (lines 964 to 1161). Line 974 builds the dict for
  \<^verbatim>\<open>self.last_metrics\<close> from \<^verbatim>\<open>Counter(y)\<close> while \<^verbatim>\<open>y\<close> is not yet assigned; line 978
  unpacks what \<^verbatim>\<open>prepare_training_data\<close> returns.
\<close>

definition train_model_try ::
  "('sc, 'm) env \<Rightarrow> bool \<Rightarrow> ('sc, 'm) model_state \<Rightarrow> (error + bool) \<times> ('sc, 'm) model_state"
where
  "train_model_try e force_single_class s =
     (if length (local_data e) < 50 then
        (case read_local y_before_line_978 of
           Inl err \<Rightarrow> (Inl err, s)
         | Inr y \<Rightarrow>
             (Inr False, s\<lparr>last_metrics := Rejected DATA_TOO_SMALL NON_VALID (Counter y)\<rparr>))
      else
        let sample_data = local_data e
        in case unpack3 (prepare_training_data sample_data) of
             Inl err \<Rightarrow> (Inl err, s)
           | Inr (X, y, timestamps) \<Rightarrow> train_prepared e force_single_class X y timestamps s)"

text \<open>
  \<^verbatim>\<open>train_model\<close> (lines 959 to 1165): the \<^verbatim>\<open>except Exception\<close> clause logs and returns
  \<^verbatim>\<open>False\<close>; it undoes nothing.
\<close>

definition train_model ::
  "('sc, 'm) env \<Rightarrow> bool \<Rightarrow> ('sc, 'm) model_state \<Rightarrow> bool \<times> ('sc, 'm) model_state"
where
  "train_model e force_single_class s =
     (case train_model_try e force_single_class s of
        (Inl err, s') \<Rightarrow> (False, s')
      | (Inr ok, s') \<Rightarrow> (ok, s'))"

text \<open>
  \<^verbatim>\<open>get_label_distribution\<close> (lines 1478 to 1487): it unpacks the result of
  \<^verbatim>\<open>prepare_training_data\<close> as well, and returns the empty dict on any exception.
\<close>

definition get_label_distribution :: "reading list \<Rightarrow> (label \<times> nat) list" where
  "get_label_distribution data_points =
     (if data_points = [] then []
      else
        case unpack3 (prepare_training_data data_points) of
          Inl err \<Rightarrow> []
        | Inr (X, y, timestamps) \<Rightarrow> counts_for (np_unique y) y)"

subsection \<open>Forecast engine\<close>

text \<open>
  \<^verbatim>\<open>FuzzyForecastEngine.light_bins\<close>: name, lower bound, upper bound; the upper bound
  \<open>None\<close> is \<^verbatim>\<open>float("inf")\<close>.
\<close>

definition light_bins :: "(string \<times> real \<times> real option) list" where
  "light_bins =
     [(''Gelap'', 0, Some 50),
      (''Mendung'', 50, Some 1000),
      (''Berawan'', 1000, Some 10000),
      (''Cerah'', 10000, Some 50000),
      (''Terik'', 50000, None)]"

definition lt_bound :: "real \<Rightarrow> real option \<Rightarrow> bool" where
  "lt_bound x hi = (case hi of None \<Rightarrow> True | Some h \<Rightarrow> x < h)"

text \<open>The loop of \<^verbatim>\<open>classify_light\<close> over the bins, with the fall-through \<^verbatim>\<open>return "Cerah"\<close>.\<close>

fun classify_scan :: "(string \<times> real \<times> real option) list \<Rightarrow> real \<Rightarrow> string" where
  "classify_scan [] lux = ''Cerah''"
| "classify_scan ((name, lo, hi) # bins) lux =
     (if lux \<ge> lo \<and> lt_bound lux hi then name else classify_scan bins lux)"

definition classify_light :: "real \<Rightarrow> string" where
  "classify_light lux = classify_scan light_bins lux"

text \<open>The slice \<^verbatim>\<open>series[-30:]\<close>.\<close>

definition last_n :: "nat \<Rightarrow> 'a list \<Rightarrow> 'a list" where
  "last_n k xs = drop (length xs - k) xs"

text \<open>
  \<^verbatim>\<open>FuzzyForecastEngine._fit_linear\<close> (lines 1330 to 1351). A point of the series is a pair of
  an instant (seconds, UTC) and a value. \<^verbatim>\<open>numpy.polyfit(xs, ys, 1)\<close> is a parameter:
  \<open>Some (a, b)\<close> are the coefficients it returns, \<open>None\<close> stands for any exception it
  raises, which the \<^verbatim>\<open>except\<close> clause turns into \<^verbatim>\<open>None\<close>.
\<close>

definition recent_points :: "(real \<times> real) list \<Rightarrow> (real \<times> real) list" where
  "recent_points series = last_n 30 (sort_key fst series)"

definition minutes_before_now :: "(real \<times> real) list \<Rightarrow> real list" where
  "minutes_before_now series =
     (let t0 = fst (last (sort_key fst series))
      in map (\<lambda>(ts, y). (ts - t0) / 60) (recent_points series))"

definition fit_linear ::
  "(real list \<Rightarrow> real list \<Rightarrow> (real \<times> real) option) \<Rightarrow> (real \<times> real) list \<Rightarrow> (real \<times> real) option"
where
  "fit_linear polyfit series =
     (if length series < 3 then None
      else
        let xs = minutes_before_now series;
            ys = map snd (recent_points series)
        in case xs of
             [] \<Rightarrow> None
           | x # rest \<Rightarrow>
               let mx = fold max rest x; mn = fold min rest x
               in if mx - mn > - (1/2) \<and> mx - mn < 1/2 then None
                  else polyfit xs ys)"

text \<open>
  The closed form of the least-squares line through points with at least two distinct
  abscissae, which is what \<^verbatim>\<open>numpy.polyfit(xs, ys, 1)\<close> computes for them (up to rounding).
  For equal abscissae the normal equations are singular; that case is left as \<open>None\<close>
  here and \<open>fit_linear\<close> does not reach it.
\<close>

definition lstsq_line :: "real list \<Rightarrow> real list \<Rightarrow> (real \<times> real) option" where
  "lstsq_line xs ys =
     (let n = real (length xs);
          sx = sum_list xs; sy = sum_list ys;
          sxx = sum_list (map (\<lambda>x. x * x) xs);
          sxy = sum_list (map (\<lambda>(x, y). x * y) (zip xs ys));
          d = n * sxx - sx * sx
      in if d = 0 then None
         else let a = (n * sxy - sx * sy) / d in Some (a, (sy - a * sx) / n))"

text \<open>The local function \<^verbatim>\<open>predict_val\<close> of \<^verbatim>\<open>forecast_3h\<close> (lines 1389 to 1399).\<close>

definition predict_val ::
  "real \<Rightarrow> (real \<times> real) option \<Rightarrow> real \<Rightarrow> real option \<Rightarrow> real option \<Rightarrow> real"
where
  "predict_val now_val fit horizon_minutes clamp_lo clamp_hi =
     (let v = (case fit of None \<Rightarrow> now_val | Some (a, b) \<Rightarrow> b + a * horizon_minutes);
          v = (case clamp_lo of None \<Rightarrow> v | Some lo \<Rightarrow> max lo v);
          v = (case clamp_hi of None \<Rightarrow> v | Some hi \<Rightarrow> min hi v)
      in v)"

subsection \<open>Training endpoint and its single-flight guard\<close>

text \<open>
  The global flag \<^verbatim>\<open>ai_training_in_progress\<close>, and the number of background threads that
  are executing \<^verbatim>\<open>_run_train\<close> (not a variable of the program: it counts the runs).
\<close>

record guard =
  ai_training_in_progress :: bool
  running :: nat

definition guard_init :: guard where
  "guard_init = \<lparr>ai_training_in_progress = False, running = 0\<rparr>"

text \<open>The \<^verbatim>\<open>status\<close> of the JSON answer of \<^verbatim>\<open>/api/train-model\<close>.\<close>

datatype response = Not_ready | Training_in_progress | Training_started | Error_500

text \<open>
  \<^verbatim>\<open>train_ai_model\<close> (lines 2511 to 2639) as far as the guard goes. \<open>ready\<close> is the
  first component of \<^verbatim>\<open>ai_ready_for_training()\<close>, \<open>force_single_class\<close> the flag of
  the request body, \<open>thread_starts\<close> tells whether \<^verbatim>\<open>threading.Thread(...).start()\<close>
  succeeds (if it raises, the outer \<^verbatim>\<open>except\<close> answers with status 500).
  The test and the assignment of the flag are made while holding \<^verbatim>\<open>ai_training_lock\<close>;
  between the assignment and the start of the thread every other request finds the flag set
  and no thread can end, so the whole call is one step.
\<close>

definition train_ai_model :: "bool \<Rightarrow> bool \<Rightarrow> bool \<Rightarrow> guard \<Rightarrow> response \<times> guard" where
  "train_ai_model ready force_single_class thread_starts g =
     (if \<not> ready \<and> \<not> force_single_class then (Not_ready, g)
      else if ai_training_in_progress g then (Training_in_progress, g)
      else
        let g1 = g\<lparr>ai_training_in_progress := True\<rparr>
        in if thread_starts then (Training_started, g1\<lparr>running := running g1 + 1\<rparr>)
           else (Error_500, g1))"

text \<open>
  How the call of \<^verbatim>\<open>weather_ai.train_model\<close> and the code after it end inside
  \<^verbatim>\<open>_run_train\<close>: by returning, by an exception that \<^verbatim>\<open>except Exception\<close> catches, or
  by one that it does not catch.
\<close>

datatype pipeline_end = Pipeline_returns bool | Raises_Exception | Raises_BaseException

text \<open>
  \<^verbatim>\<open>_run_train\<close> (lines 2552 to 2622) from the moment the pipeline ends: the \<^verbatim>\<open>finally\<close>
  block clears the flag in every case, and the thread ends. The boolean tells whether an
  exception leaves the function.
\<close>

definition run_train_end :: "pipeline_end \<Rightarrow> guard \<Rightarrow> bool \<times> guard" where
  "run_train_end how g =
     (let escapes =
            (case how of
               Pipeline_returns ok \<Rightarrow> False
             | Raises_Exception \<Rightarrow> False
             | Raises_BaseException \<Rightarrow> True)
      in (escapes, g\<lparr>ai_training_in_progress := False, running := running g - 1\<rparr>))"

text \<open>The states the server can be in: requests and ends of runs, in any order.\<close>

inductive reachable :: "guard \<Rightarrow> bool" where
  init: "reachable guard_init"
| request: "reachable g \<Longrightarrow> reachable (snd (train_ai_model ready force_single_class thread_starts g))"
| run_ends: "reachable g \<Longrightarrow> running g > 0 \<Longrightarrow> reachable (snd (run_train_end how g))"

subsection \<open>The specification's wording, where it is compared with the code\<close>

text \<open>
  The split index as the specification words it: \<^verbatim>\<open>clamp(round(0.8n), 1, n-1)\<close>.
\<close>

definition spec_split_idx :: "nat \<Rightarrow> int" where
  "spec_split_idx n = max 1 (min (int n - 1) (round (0.8 * real n)))"

text \<open>
  The time span, in minutes, of the points that \<open>fit_linear\<close> uses: the latest instant
  minus the earliest one among the at most 30 most recent points.
\<close>

definition span_minutes :: "(real \<times> real) list \<Rightarrow> real" where
  "span_minutes series =
     (Max (set (map fst (recent_points series))) - Min (set (map fst (recent_points series)))) / 60"

subsection \<open>Concrete inputs\<close>

text \<open>The first reading of \<^verbatim>\<open>tests/test_ai_training.py::test_prepare_training_data_labels\<close>.\<close>

definition test_item :: reading where
  "test_item =
     \<lparr>temperature = Some 10, humidity = Some 40, air_quality = Some 20,
      light_intensity = None, battery_voltage = None,
      timestamp = TsStr ''2026-01-12T21:26:41Z'', ts = TsNone, time = TsNone\<rparr>"

text \<open>
  The scenario of \<^verbatim>\<open>seed_and_train.py\<close> with 20 readings per class: reading \<open>i\<close> is
  Very Hot, Normal or Cold by \<open>i mod 3\<close>, one second after the reading before it.
\<close>

definition scenario_reading :: "nat \<Rightarrow> reading" where
  "scenario_reading i =
     (case (if i mod 3 = 0 then (36, 35, 80) else if i mod 3 = 1 then (24, 50, 40) else (10, 40, 30)) of
        (temp, hum, aq) \<Rightarrow>
          \<lparr>temperature = Some temp, humidity = Some hum, air_quality = Some aq,
           light_intensity = Some 500, battery_voltage = Some 3.9,
           timestamp = TsNum (1768253201 + real i), ts = TsNone, time = TsNone\<rparr>)"

definition scenario_data :: "reading list" where
  "scenario_data = map scenario_reading [0..<60]"

text \<open>
  The arrays that the statements of lines 888 to 957 would compute for the scenario.
\<close>

definition scenario_X :: "features list" where
  "scenario_X = fst (unreachable_block scenario_data)"

definition scenario_y :: "label list" where
  "scenario_y = fst (snd (unreachable_block scenario_data))"

definition scenario_timestamps :: "ts_raw list" where
  "scenario_timestamps = snd (snd (unreachable_block scenario_data))"

text \<open>
  An environment in which every library call succeeds: the scaler is the identity, the
  classifier answers \<^verbatim>\<open>Normal\<close> for every row, the generator draws zeros, and no
  file-system operation raises.
\<close>

definition demo_env :: "(nat, nat) env" where
  "demo_env =
     \<lparr>local_data = [],
      MIN_TRAIN_SAMPLES_PER_CLASS = 10,
      time_time = 1768253201,
      default_rng = (\<lambda>seed k. 0),
      iso_now = ''2026-01-12T21:26:41Z'',
      uuid4 = ''00000000-0000-4000-8000-000000000000'',
      fromtimestamp = (\<lambda>x. Some x),
      fromisoformat = (\<lambda>str. None),
      scaler_fit_transform = (\<lambda>X. Some (1, X)),
      scaler_transform = (\<lambda>sc X. Some X),
      model_fit = (\<lambda>X y. Some 1),
      model_predict = (\<lambda>m X. Some (map (\<lambda>x. Normal) X)),
      f1_score = (\<lambda>y_true y_pred. 0),
      balanced_accuracy_score = (\<lambda>y_true y_pred. 0),
      sk_confusion_matrix = (\<lambda>y_true y_pred lbls. []),
      os_raises = (\<lambda>step. False)\<rparr>"

text \<open>A freshly constructed \<^verbatim>\<open>WeatherAIModel\<close> with no files on disk.\<close>

definition demo_state :: "(nat, nat) model_state" where
  "demo_state =
     \<lparr>model = 0, scaler = 0, trained = False, model_trained_at = None, accuracy = None,
      last_metrics = No_metrics, model_meta = None,
      files = \<lparr>model_file = None, model_file_tmp = None, scaler_file = None,
                scaler_file_tmp = None, meta_file = None\<rparr>\<rparr>"

text \<open>
  The same environment with a file system that fails: \<^verbatim>\<open>mkdir\<close> raises, or the dump of
  the scaler raises (after the model file has been written).
\<close>

definition mkdir_fails_env :: "(nat, nat) env" where
  "mkdir_fails_env = demo_env\<lparr>os_raises := (\<lambda>step. step = Mkdir)\<rparr>"

definition scaler_dump_fails_env :: "(nat, nat) env" where
  "scaler_dump_fails_env = demo_env\<lparr>os_raises := (\<lambda>step. step = Dump_scaler)\<rparr>"

text \<open>
  A \<^verbatim>\<open>WeatherAIModel\<close> that has loaded a model and a scaler saved earlier (\<^verbatim>\<open>load_model\<close>
  has set \<^verbatim>\<open>trained\<close>).
\<close>

definition persisted_state :: "(nat, nat) model_state" where
  "persisted_state =
     \<lparr>model = 7, scaler = 7, trained = True, model_trained_at = None, accuracy = None,
      last_metrics = No_metrics, model_meta = None,
      files = \<lparr>model_file = Some 7, model_file_tmp = None, scaler_file = Some 7,
                scaler_file_tmp = None, meta_file = None\<rparr>\<rparr>"

text \<open>Ten prepared samples, alternating Cold and Normal, one second apart.\<close>

definition demo_X :: "features list" where
  "demo_X = map (\<lambda>i. if even i then (10, 40, 30, 500, 3.9) else (24, 50, 40, 500, 3.9)) [0..<10]"

definition demo_y :: "label list" where
  "demo_y = map (\<lambda>i. if even i then Cold else Normal) [0..<10]"

definition demo_timestamps :: "ts_raw list" where
  "demo_timestamps = map (\<lambda>i. TsNum (real i)) [0..<10]"

text \<open>Five prepared samples whose timestamps tie: samples 0 and 2, and samples 1 and 3.\<close>

definition tied_X :: "features list" where
  "tied_X = map (\<lambda>i. (real i, 50, 40, 500, 3.9)) [0..<5]"

definition tied_y :: "label list" where
  "tied_y = [Cold, Cold, Cold, Cold, Cold]"

definition tied_timestamps :: "ts_raw list" where
  "tied_timestamps = [TsNum 20, TsNum 10, TsNum 20, TsNum 10, TsNum 30]"

text \<open>The first 52 readings of the scenario, and the arrays lines 888 to 957 would compute.\<close>

definition scenario52 :: "reading list" where
  "scenario52 = take 52 scenario_data"

definition scenario52_X :: "features list" where
  "scenario52_X = fst (unreachable_block scenario52)"

definition scenario52_y :: "label list" where
  "scenario52_y = fst (snd (unreachable_block scenario52))"

definition scenario52_timestamps :: "ts_raw list" where
  "scenario52_timestamps = snd (snd (unreachable_block scenario52))"

text \<open>The four arrays of a split of five samples, the last two in the test partition.\<close>

definition demo_partition :: partition where
  "demo_partition =
     \<lparr>X_train = [(10, 40, 30, 500, 3.9), (24, 50, 40, 500, 3.9), (10, 40, 30, 500, 3.9)],
      y_train = [Cold, Normal, Cold],
      X_test = [(24, 50, 40, 500, 3.9), (10, 40, 30, 500, 3.9)],
      y_test = [Normal, Cold]\<rparr>"

text \<open>
  The guard after one accepted request (not ready, but with \<^verbatim>\<open>force_single_class\<close> set):
  a run is active.
\<close>

definition busy :: guard where
  "busy = snd (train_ai_model False True True guard_init)"

text \<open>Three points 15 seconds apart: a span of exactly half a minute.\<close>

definition half_minute_series :: "(real \<times> real) list" where
  "half_minute_series = [(0, 20), (15, 21), (30, 22)]"

section \<open>Properties\<close>

subsection \<open>What \<^verbatim>\<open>train_model\<close> does in this snapshot\<close>

text \<open>
  Both branches of the \<^verbatim>\<open>try\<close> block raise before any attribute or file is written:
  with fewer than 50 readings line 974 reads the unassigned local \<^verbatim>\<open>y\<close>, with 50 or more
  line 978 unpacks the \<^verbatim>\<open>None\<close> that \<^verbatim>\<open>prepare_training_data\<close> returns.
\<close>

lemma train_model_try_small:
  "length (local_data e) < 50
     \<Longrightarrow> train_model_try e force_single_class s = (Inl UnboundLocalError, s)"
  by (simp add: train_model_try_def read_local_def y_before_line_978_def)

lemma train_model_try_large:
  "\<not> length (local_data e) < 50
     \<Longrightarrow> train_model_try e force_single_class s = (Inl TypeError, s)"
  by (simp add: train_model_try_def unpack3_def prepare_training_data_def)

lemma train_model_always_fails: "train_model e force_single_class s = (False, s)"
  by (cases "length (local_data e) < 50")
    (simp_all add: train_model_def train_model_try_small train_model_try_large)

text \<open>
  The statements of lines 909 to 949, which no run reaches, derive the same label as
  \<^verbatim>\<open>_label_from_features\<close> for every input.
\<close>

lemma unreachable_condition_eq:
  "unreachable_condition temp hum aq = label_from_features temp hum aq"
  by (simp add: unreachable_condition_def label_from_features_def)

text \<open>
  On the arrays that the statements of lines 888 to 957 would compute for the scenario,
  and with library calls that succeed, lines 979 to 1161 end with \<^verbatim>\<open>return True\<close> and a
  report that is VALID and trusted.
\<close>

lemma scenario_labels: "Counter scenario_y = [(Very_Hot, 20), (Normal, 20), (Cold, 20)]"
  by code_simp

lemma scenario_prepared_returns_true:
  "fst (train_prepared demo_env False scenario_X scenario_y scenario_timestamps demo_state)
     = Inr True"
  by code_simp

lemma scenario_prepared_valid:
  "(case last_metrics
           (snd (train_prepared demo_env False scenario_X scenario_y scenario_timestamps
                   demo_state)) of
      Report r \<Rightarrow> metrics_trusted r \<and> evaluation_mode r = VALID
    | _ \<Rightarrow> False)"
  by code_simp

subsection \<open>Persistence and commit\<close>

lemma save_model_keeps:
  "save_model e s = (ok, s') \<Longrightarrow> last_metrics s' = last_metrics s \<and> trained s' = trained s"
  by (auto simp: save_model_def Let_def split: if_splits prod.splits option.splits)

lemma commit_report:
  "commit e r ev n p s = (ok, s') \<Longrightarrow> last_metrics s' = Report r \<and> trained s'"
  by (auto simp: commit_def Let_def split: prod.splits bool.splits dest!: save_model_keeps)

text \<open>
  A failed \<^verbatim>\<open>save_model\<close>: some file-system operation raised; each of the model file and
  the scaler file is as it was or holds the new object, the scaler only if the model does;
  the metadata file is as it was.
\<close>

lemma save_model_failure:
  assumes "save_model e s = (False, s')"
  shows "(\<exists>step. os_raises e step)
     \<and> model s' = model s \<and> scaler s' = scaler s
     \<and> (model_file (files s') = model_file (files s) \<or> model_file (files s') = Some (model s))
     \<and> (scaler_file (files s') = scaler_file (files s)
          \<or> scaler_file (files s') = Some (scaler s) \<and> model_file (files s') = Some (model s))
     \<and> meta_file (files s') = meta_file (files s)"
  using assms
  by (auto simp: save_model_def atomic_write_model_def atomic_write_scaler_def Let_def
      split: if_splits)

lemma fit_and_evaluate_frame:
  "fit_and_evaluate e p ul s = (r, s1) \<Longrightarrow> trained s1 = trained s \<and> files s1 = files s"
  by (auto simp: fit_and_evaluate_def Let_def split: option.splits prod.splits sum.splits)

lemma commit_failure:
  assumes "commit e r ev n p s1 = (False, s2)"
  shows "trained s2 \<and> last_metrics s2 = Report r
     \<and> (\<exists>step. os_raises e step)
     \<and> (model_file (files s2) = model_file (files s1) \<or> model_file (files s2) = Some (model s2))
     \<and> (scaler_file (files s2) = scaler_file (files s1)
          \<or> scaler_file (files s2) = Some (scaler s2) \<and> model_file (files s2) = Some (model s2))
     \<and> meta_file (files s2) = meta_file (files s1)"
proof -
  define s where "s = s1\<lparr>trained := True,
                 model_trained_at := Some (iso_now e),
                 accuracy := (if metrics_trusted r then Some (ev_test_score ev) else None),
                 last_metrics := Report r,
                 model_meta := Some \<lparr>version = uuid4 e,
                                      training_seed = time_time e,
                                      training_samples = n,
                                      training_samples_train = length (y_train p),
                                      training_samples_test = length (y_test p),
                                      meta_synthetic_used = synthetic_used r,
                                      meta_evaluation_mode = evaluation_mode r,
                                      meta_metrics_trusted = metrics_trusted r,
                                      saved_at = None\<rparr>\<rparr>"
  from assms have sv: "save_model e s = (False, s2)"
    by (auto simp: commit_def Let_def s_def split: prod.splits bool.splits)
  from save_model_failure [OF sv] save_model_keeps [OF sv]
  show ?thesis by (auto simp: s_def)
qed

text \<open>
  Lines 1123 and 1156: \<^verbatim>\<open>self.trained = True\<close> is assigned before \<^verbatim>\<open>save_model\<close> is
  called, so a run that gets this far and cannot save returns \<^verbatim>\<open>False\<close> with the flag set;
  and a save that fails at the scaler has already replaced the model file.
\<close>

lemma commit_save_fails:
  "os_raises e Mkdir \<Longrightarrow> commit e r ev n p s = (False, s')
     \<Longrightarrow> trained s' \<and> files s' = files s"
  by (auto simp: commit_def save_model_def Let_def split: prod.splits bool.splits)

lemma commit_partial_write:
  "\<not> os_raises e Mkdir \<Longrightarrow> \<not> os_raises e Dump_model \<Longrightarrow> \<not> os_raises e Replace_model
     \<Longrightarrow> os_raises e Dump_scaler
     \<Longrightarrow> commit e r ev n p s = (False, s\<lparr>trained := True,
                 model_trained_at := Some (iso_now e),
                 accuracy := (if metrics_trusted r then Some (ev_test_score ev) else None),
                 last_metrics := Report r,
                 model_meta := Some \<lparr>version = uuid4 e,
                                      training_seed = time_time e,
                                      training_samples = n,
                                      training_samples_train = length (y_train p),
                                      training_samples_test = length (y_test p),
                                      meta_synthetic_used = synthetic_used r,
                                      meta_evaluation_mode = evaluation_mode r,
                                      meta_metrics_trusted = metrics_trusted r,
                                      saved_at = None\<rparr>,
                 files := (files s)\<lparr>model_file := Some (model s), model_file_tmp := None\<rparr>\<rparr>)"
  by (simp add: commit_def save_model_def atomic_write_model_def atomic_write_scaler_def Let_def)

subsection \<open>Order of the labels in \<^verbatim>\<open>numpy.unique\<close>\<close>

text \<open>The rank used by \<open>np_unique\<close> is the order of the label strings.\<close>

lemma label_rank_string_order:
  "label_rank a < label_rank b \<longleftrightarrow> label_str a < label_str b"
  by (cases a; cases b; simp add: less_char_def)

subsection \<open>Split index and chronological order\<close>

lemma floor_four_fifths: "\<lfloor>real n * 0.8\<rfloor> = int ((4 * n) div 5)"
proof -
  have "real n * 0.8 = real (4 * n) / real 5" by simp
  then show ?thesis
    by (simp only: floor_divide_of_nat_eq)
qed

lemma split_idx_div: "split_idx n = max 1 (min (int n - 1) (int ((4 * n) div 5)))"
  by (simp only: split_idx_def floor_four_fifths)

lemma split_idx_bounds: "2 \<le> n \<Longrightarrow> 1 \<le> split_idx n \<and> split_idx n \<le> int n - 1"
  by (simp add: split_idx_def)

lemma r52: "round (0.8 * real 52) = 42"
proof -
  have "0.8 * real 52 + 1 / 2 = 421 / 10" by simp
  then have "\<lfloor>0.8 * real 52 + 1 / 2\<rfloor> = \<lfloor>421 / (10::real)\<rfloor>" by simp
  also have "\<dots> = 42" by linarith
  finally show ?thesis by (simp only: round_def)
qed

lemma time_keys_snd: "map snd (time_keys e tss) = [0..<length (time_keys e tss)]"
proof -
  have "map snd (time_keys e tss) = map fst (enumerate 0 tss)"
    by (simp add: time_keys_def case_prod_unfold comp_def)
  then show ?thesis by (simp add: time_keys_def)
qed

lemma time_keys_nth:
  "i < length tss \<Longrightarrow> fst (time_keys e tss ! i) = parse_ts e (tss ! i) i"
  by (simp add: time_keys_def nth_enumerate_eq)

lemma keys_nth:
  assumes "map snd keys = [0..<length keys]" and "(t, i) \<in> set keys"
  shows "i < length keys \<and> keys ! i = (t, i)"
proof -
  from assms(2) obtain j where j: "j < length keys" "keys ! j = (t, i)"
    by (auto simp: in_set_conv_nth)
  have "snd (keys ! j) = [0..<length keys] ! j"
    using assms(1) j(1) by (metis nth_map)
  then have "i = j" using j by simp
  with j show ?thesis by simp
qed

lemma sorted_indices_set:
  "map snd keys = [0..<length keys] \<Longrightarrow> set (sorted_indices_of keys) = {0..<length keys}"
proof -
  assume a: "map snd keys = [0..<length keys]"
  have "set (sorted_indices_of keys) = set (map snd keys)"
    by (simp add: sorted_indices_of_def)
  then show ?thesis using a by simp
qed

lemma sorted_indices_distinct:
  assumes "map snd keys = [0..<length keys]"
  shows "distinct (sorted_indices_of keys)"
proof -
  have d: "distinct (map snd keys)" using assms by simp
  then have "distinct keys" and "inj_on snd (set keys)"
    by (auto simp: distinct_map)
  then have "distinct (sort_key fst keys)" and "inj_on snd (set (sort_key fst keys))"
    by simp_all
  then show ?thesis
    by (simp add: sorted_indices_of_def distinct_map)
qed

lemma sorted_indices_chronological:
  assumes "map snd keys = [0..<length keys]"
  shows "sorted (map (\<lambda>i. fst (keys ! i)) (sorted_indices_of keys))"
proof -
  have "\<forall>p \<in> set (sort_key fst keys). fst (keys ! snd p) = fst p"
  proof
    fix p assume "p \<in> set (sort_key fst keys)"
    then have "(fst p, snd p) \<in> set keys" by simp
    from keys_nth [OF assms this] show "fst (keys ! snd p) = fst p" by simp
  qed
  then have "map (\<lambda>i. fst (keys ! i)) (sorted_indices_of keys) = map fst (sort_key fst keys)"
    by (simp add: sorted_indices_of_def)
  then show ?thesis by (simp add: sorted_sort_key)
qed


text \<open>
  The sorted indices are the stable sort of \<open>0, \<dots>, n - 1\<close> by resolved timestamp:
  samples with the same instant keep their insertion order.
\<close>

lemma time_keys_alt:
  "time_keys e tss = map (\<lambda>i. (parse_ts e (tss ! i) i, i)) [0..<length tss]"
proof (rule nth_equalityI)
  show "length (time_keys e tss) = length (map (\<lambda>i. (parse_ts e (tss ! i) i, i)) [0..<length tss])"
    by (simp add: time_keys_def)
next
  fix i assume "i < length (time_keys e tss)"
  then have i: "i < length tss" by (simp add: time_keys_def)
  have "snd (time_keys e tss ! i) = map snd (time_keys e tss) ! i"
    using i by (simp add: time_keys_def)
  also have "\<dots> = i"
    using i by (simp only: time_keys_snd) (simp add: time_keys_def)
  finally have "time_keys e tss ! i = (parse_ts e (tss ! i) i, i)"
    using time_keys_nth [OF i, of e] by (simp add: prod_eq_iff)
  then show "time_keys e tss ! i = map (\<lambda>i. (parse_ts e (tss ! i) i, i)) [0..<length tss] ! i"
    using i by simp
qed

lemma sort_key_pairs_aux:
  "sort_key fst (map (\<lambda>i. (k i, i)) xs) = map (\<lambda>i. (k i, i)) (sort_key k xs)"
proof (induction xs)
  case Nil
  then show ?case by simp
next
  case (Cons x xs)
  have "insort_key fst (k x, x) (map (\<lambda>i. (k i, i)) ys) = map (\<lambda>i. (k i, i)) (insort_key k x ys)" for ys
    by (induction ys) simp_all
  with Cons show ?case by simp
qed

lemma sorted_indices_stable_sort:
  "sorted_indices_of (time_keys e tss)
     = sort_key (\<lambda>i. parse_ts e (tss ! i) i) [0..<length tss]"
  by (simp add: sorted_indices_of_def time_keys_alt sort_key_pairs_aux comp_def)

lemma sorted_indices_ties:
  "filter (\<lambda>i. parse_ts e (tss ! i) i = t) (sorted_indices_of (time_keys e tss))
     = filter (\<lambda>i. parse_ts e (tss ! i) i = t) [0..<length tss]"
  by (simp only: sorted_indices_stable_sort sort_key_stable)

lemma np_take_ok: "set idx \<subseteq> {0..<length xs} \<Longrightarrow> np_take xs idx = Inr (map ((!) xs) idx)"
  by (auto simp: np_take_def list_all_iff)

subsection \<open>Report\<close>

lemma baseline_majority_le_1: "baseline_majority ytr yte = Inr b \<Longrightarrow> b \<le> 1"
  by (auto simp: baseline_majority_def Let_def split: option.splits prod.splits)

lemma fit_and_evaluate_baseline:
  "fit_and_evaluate e p ul s = (Inr ev, s1) \<Longrightarrow> ev_baseline_acc ev \<le> 1"
  by (auto simp: fit_and_evaluate_def Let_def
      split: option.splits prod.splits sum.splits dest: baseline_majority_le_1)

lemma make_report_gate:
  assumes "mode_in \<noteq> UNKNOWN" and "r = make_report mode_in ws syn ev ul y p"
  shows "(\<not> metrics_trusted r \<longrightarrow>
            evaluation_mode r = NON_VALID \<and> test_accuracy r = None
            \<and> macro_f1 r = None \<and> balanced_accuracy r = None)
       \<and> (metrics_trusted r \<longleftrightarrow> evaluation_mode r = VALID)
       \<and> train_accuracy r = Some (ev_train_score ev)
       \<and> (\<exists>b. baseline_majority_accuracy r = Some b \<and> b \<le> max 1 (ev_baseline_acc ev)
              \<and> (ev_baseline_acc ev \<le> 1 \<longrightarrow> b \<le> 1))"
  using assms by (cases mode_in) (auto simp: make_report_def Let_def)

subsection \<open>Augmentation\<close>

lemma oversample_minority_appends:
  "\<exists>new k'. oversample_minority Xtr ytr z k m = ((Xtr @ map fst new, ytr @ map snd new), k')"
proof (cases "oversample_loop Xtr ytr z m (np_unique ytr) k")
  case (Pair new k')
  then show ?thesis by (auto simp: oversample_minority_def)
qed

lemma augment_frame:
  "X_test (augment e z needs_synthetic p) = X_test p
   \<and> y_test (augment e z needs_synthetic p) = y_test p
   \<and> length (X_test (augment e z needs_synthetic p)) = length (X_test p)
   \<and> length (y_test (augment e z needs_synthetic p)) = length (y_test p)
   \<and> (\<exists>added. X_train (augment e z needs_synthetic p) = X_train p @ map fst added
              \<and> y_train (augment e z needs_synthetic p) = y_train p @ map snd added)"
proof -
  obtain syn_X syn_y k where g: "generate_synthetic_features archetypes z 0 3 = ((syn_X, syn_y), k)"
    by (metis surj_pair)
  have gl: "length syn_X = length syn_y"
    using g by (auto simp: generate_synthetic_features_def Let_def)
  show ?thesis
  proof (cases needs_synthetic)
    case True
    obtain new k' where o: "oversample_minority (X_train p @ syn_X) (y_train p @ syn_y) z k
        (MIN_TRAIN_SAMPLES_PER_CLASS e)
        = (((X_train p @ syn_X) @ map fst new, (y_train p @ syn_y) @ map snd new), k')"
      using oversample_minority_appends by blast
    have "syn_X @ map fst new = map fst (zip syn_X syn_y @ new)"
      "syn_y @ map snd new = map snd (zip syn_X syn_y @ new)"
      using gl by simp_all
    then have "\<exists>added. syn_X @ map fst new = map fst added \<and> syn_y @ map snd new = map snd added"
      by blast
    then show ?thesis
      using True g o by (simp add: augment_def Let_def)
  next
    case False
    obtain new k' where o: "oversample_minority (X_train p) (y_train p) z 0
        (MIN_TRAIN_SAMPLES_PER_CLASS e)
        = ((X_train p @ map fst new, y_train p @ map snd new), k')"
      using oversample_minority_appends by blast
    then show ?thesis
      using False by (auto simp: augment_def Let_def)
  qed
qed

text \<open>
  In a run of lines 979 to 1161 that returns \<^verbatim>\<open>True\<close>, the test counts of the report and
  the test size of the metadata are those of the chronological split.
\<close>

lemma save_model_meta:
  "save_model e s = (ok, s') \<Longrightarrow> model_meta s = Some m
     \<Longrightarrow> \<exists>m'. model_meta s' = Some m' \<and> training_samples_test m' = training_samples_test m"
  by (auto simp: save_model_def Let_def split: if_splits prod.splits option.splits)

lemma completed_run_test_partition:
  assumes run: "train_prepared e force_single_class X y timestamps s = (Inr True, s')"
    and split: "chrono_split e X y timestamps = Inr p0"
  shows "\<exists>r m. last_metrics s' = Report r \<and> model_meta s' = Some m
     \<and> test_counts r = counts_for (np_unique (y_test p0)) (y_test p0)
     \<and> training_samples_test m = length (y_test p0)"
proof -
  define ul where "ul = np_unique y"
  define ns where "ns = (length ul < 2 \<and> force_single_class)"
  define p where "p = augment e (default_rng e (time_time e)) ns p0"
  have yt: "y_test p = y_test p0"
    using augment_frame [of e "default_rng e (time_time e)" ns p0] by (simp add: p_def)
  from run split obtain r ev s1 where
    cm: "commit e r ev (length y) p s1 = (True, s')" and r: "test_counts r = counts_for (np_unique (y_test p)) (y_test p)"
    by (auto simp: train_prepared_def Let_def ul_def ns_def p_def make_report_def
        split: if_splits sum.splits prod.splits)
  from cm obtain s2 where s2: "save_model e s2 = (True, s')" "last_metrics s2 = Report r"
     "\<exists>m. model_meta s2 = Some m \<and> training_samples_test m = length (y_test p)"
    by (auto simp: commit_def Let_def split: prod.splits bool.splits)
  from s2(3) obtain m where m: "model_meta s2 = Some m" "training_samples_test m = length (y_test p)"
    by blast
  from save_model_meta [OF s2(1) m(1)] save_model_keeps [OF s2(1)] s2(2) m(2) r yt
  show ?thesis by auto
qed

subsection \<open>Guard\<close>

lemma reachable_invariant:
  "reachable g \<Longrightarrow> running g \<le> 1 \<and> (running g = 1 \<longrightarrow> ai_training_in_progress g)"
proof (induction rule: reachable.induct)
  case init
  then show ?case by (simp add: guard_init_def)
next
  case (request g ready force_single_class thread_starts)
  then show ?case by (auto simp: train_ai_model_def Let_def)
next
  case (run_ends g how)
  then show ?case by (auto simp: run_train_end_def Let_def)
qed

lemma busy_reachable: "reachable busy"
  unfolding busy_def by (rule reachable.request) (rule reachable.init)

subsection \<open>Linear trend\<close>

lemma recent_points_nonempty: "series \<noteq> [] \<Longrightarrow> recent_points series \<noteq> []"
proof -
  assume "series \<noteq> []"
  then have "0 < length (sort_key fst series)" by simp
  then have "length (sort_key fst series) - 30 < length (sort_key fst series)" by arith
  then show ?thesis by (simp add: recent_points_def last_n_def)
qed

lemma minutes_as_map:
  "minutes_before_now series =
     map (\<lambda>t. (t - fst (last (sort_key fst series))) / 60) (map fst (recent_points series))"
  by (simp add: minutes_before_now_def Let_def case_prod_unfold comp_def)

lemma fold_max_Max: "fold max rest (x::real) = Max (set (x # rest))"
  by (simp only: Max.set_eq_fold)

lemma fold_min_Min: "fold min rest (x::real) = Min (set (x # rest))"
  by (simp only: Min.set_eq_fold)

lemma Max_shift:
  fixes ts :: "real list"
  assumes "ts \<noteq> []"
  shows "Max (set (map (\<lambda>t. (t - c) / 60) ts)) = (Max (set ts) - c) / 60"
proof -
  have m: "mono (\<lambda>t::real. (t - c) / 60)"
    by (auto intro!: monoI simp: divide_right_mono)
  have "(\<lambda>t. (t - c) / 60) (Max (set ts)) = Max ((\<lambda>t. (t - c) / 60) ` set ts)"
    using assms by (intro mono_Max_commute [OF m]) auto
  then show ?thesis by simp
qed

lemma Min_shift:
  fixes ts :: "real list"
  assumes "ts \<noteq> []"
  shows "Min (set (map (\<lambda>t. (t - c) / 60) ts)) = (Min (set ts) - c) / 60"
proof -
  have m: "mono (\<lambda>t::real. (t - c) / 60)"
    by (auto intro!: monoI simp: divide_right_mono)
  have "(\<lambda>t. (t - c) / 60) (Min (set ts)) = Min ((\<lambda>t. (t - c) / 60) ` set ts)"
    using assms by (intro mono_Min_commute [OF m]) auto
  then show ?thesis by simp
qed

lemma span_of_minutes:
  assumes "series \<noteq> []"
  shows "Max (set (minutes_before_now series)) - Min (set (minutes_before_now series))
         = span_minutes series"
proof -
  have ne: "map fst (recent_points series) \<noteq> []"
    using recent_points_nonempty [OF assms] by simp
  show ?thesis
    unfolding minutes_as_map Max_shift [OF ne] Min_shift [OF ne] span_minutes_def
    by (simp add: diff_divide_distrib)
qed

lemma span_nonneg: "series \<noteq> [] \<Longrightarrow> 0 \<le> span_minutes series"
proof -
  assume a: "series \<noteq> []"
  define ts where "ts = map fst (recent_points series)"
  have "ts \<noteq> []"
    using recent_points_nonempty [OF a] by (simp add: ts_def)
  then have t: "hd ts \<in> set ts" by simp
  have "Min (set ts) \<le> hd ts" "hd ts \<le> Max (set ts)"
    using t by (simp_all only: Min_le Max_ge List.finite_set)
  then have "Min (set ts) \<le> Max (set ts)"
    by (rule order_trans)
  then show ?thesis by (simp add: span_minutes_def ts_def)
qed

text \<open>
  \<open>lstsq_line\<close> solves the normal equations of the least-squares problem: the residuals
  of the line sum to zero, and so do the residuals weighted by the abscissae.
\<close>

lemma residual_sums:
  fixes a b :: real
  assumes "length xs = length ys"
  shows "sum_list (map (\<lambda>(x, y). a * x + b - y) (zip xs ys))
           = a * sum_list xs + b * real (length xs) - sum_list ys"
    and "sum_list (map (\<lambda>(x, y). x * (a * x + b - y)) (zip xs ys))
           = a * sum_list (map (\<lambda>x. x * x) xs) + b * sum_list xs
             - sum_list (map (\<lambda>(x, y). x * y) (zip xs ys))"
  using assms by (induction xs ys rule: list_induct2) (simp_all add: algebra_simps)

lemma lstsq_line_normal_equations:
  assumes "length xs = length ys" and "lstsq_line xs ys = Some (a, b)"
  shows "sum_list (map (\<lambda>(x, y). a * x + b - y) (zip xs ys)) = 0"
    and "sum_list (map (\<lambda>(x, y). x * (a * x + b - y)) (zip xs ys)) = 0"
proof -
  define n where "n = real (length xs)"
  define sx where "sx = sum_list xs"
  define sy where "sy = sum_list ys"
  define sxx where "sxx = sum_list (map (\<lambda>x. x * x) xs)"
  define sxy where "sxy = sum_list (map (\<lambda>(x, y). x * y) (zip xs ys))"
  define d where "d = n * sxx - sx * sx"
  from assms(2) have d: "d \<noteq> 0" and a: "a = (n * sxy - sx * sy) / d" and b: "b = (sy - a * sx) / n"
    by (auto simp: lstsq_line_def Let_def n_def sx_def sy_def sxx_def sxy_def d_def
        split: if_splits)
  have n: "n \<noteq> 0"
  proof
    assume "n = 0"
    then have "xs = []" by (simp add: n_def)
    then have "d = 0" by (simp add: d_def n_def sx_def sxx_def)
    with d show False by simp
  qed
  have e1: "a * sx + b * n - sy = 0"
    using n by (simp add: b)
  have "a * d = n * sxy - sx * sy"
    using d by (simp add: a)
  then have ad: "a * (n * sxx - sx * sx) = n * sxy - sx * sy"
    by (simp add: d_def)
  have bn: "b * n = sy - a * sx"
    using n by (simp add: b)
  have "n * (a * sxx + b * sx - sxy) = a * (n * sxx - sx * sx) + sx * (a * sx + b * n - sy) - (n * sxy - sx * sy)"
    by (simp add: algebra_simps)
  also have "\<dots> = 0"
    using ad e1 by simp
  finally have e2: "a * sxx + b * sx - sxy = 0"
    using n by simp
  show "sum_list (map (\<lambda>(x, y). a * x + b - y) (zip xs ys)) = 0"
    using residual_sums(1) [OF assms(1), of a b] e1 by (simp add: n_def sx_def sy_def)
  show "sum_list (map (\<lambda>(x, y). x * (a * x + b - y)) (zip xs ys)) = 0"
    using residual_sums(2) [OF assms(1), of a b] e2 by (simp add: sxx_def sx_def sxy_def)
qed

section \<open>The claims\<close>

text \<open>
  C1. Scenario: 60 readings alternating \<open>{temp=36, hum=35, aq=80}\<close>,
  \<open>{temp=24, hum=50, aq=40}\<close>, \<open>{temp=10, hum=40, aq=30}\<close>, 20 each, with parseable
  timestamps. The label derivation \<^verbatim>\<open>_label_from_features\<close> gives Very Hot, Normal and Cold
  20 times each. The claim says that \<^verbatim>\<open>train_model(force_single_class=False)\<close> then returns
  success with a VALID, trusted report. In this snapshot \<^verbatim>\<open>prepare_training_data\<close>
  returns \<^verbatim>\<open>None\<close> for the 60 readings, unpacking it at line 978 raises \<^verbatim>\<open>TypeError\<close>, and
  \<^verbatim>\<open>train_model\<close> returns \<^verbatim>\<open>False\<close> with the model object as it was: not trained and
  without a report.
\<close>

theorem scenario_training_fails:
  "length scenario_data = 60
   \<and> Counter (map (\<lambda>r. label_from_features (to_float_safe (temperature r))
                      (to_float_safe (humidity r)) (to_float_safe (air_quality r)))
         scenario_data)
       = [(Very_Hot, 20), (Normal, 20), (Cold, 20)]
   \<and> prepare_training_data scenario_data = None
   \<and> train_model_try (demo_env\<lparr>local_data := scenario_data\<rparr>) False demo_state
       = (Inl TypeError, demo_state)
   \<and> train_model (demo_env\<lparr>local_data := scenario_data\<rparr>) False demo_state
       = (False, demo_state)
   \<and> \<not> trained demo_state \<and> last_metrics demo_state = No_metrics"
proof -
  have len: "length scenario_data = 60"
    by (simp add: scenario_data_def)
  have lab: "Counter (map (\<lambda>r. label_from_features (to_float_safe (temperature r))
                      (to_float_safe (humidity r)) (to_float_safe (air_quality r)))
         scenario_data)
       = [(Very_Hot, 20), (Normal, 20), (Cold, 20)]"
    by code_simp
  have big: "\<not> length (local_data (demo_env\<lparr>local_data := scenario_data\<rparr>)) < 50"
    by (simp add: len)
  show ?thesis
    using len lab train_model_try_large [OF big] train_model_always_fails
    by (simp add: prepare_training_data_def demo_state_def)
qed

text \<open>
  C2, as stated: after a training run that fails, in particular when \<^verbatim>\<open>save_model\<close> returns
  failure, \<^verbatim>\<open>trained\<close> has the value it had before and the persisted artifacts are
  unchanged. Lines 979 to 1161 assign \<^verbatim>\<open>self.trained = True\<close> (line 1123) before they call
  \<^verbatim>\<open>save_model\<close> (line 1156), and \<^verbatim>\<open>save_model\<close> writes the model file before the scaler
  file. With ten prepared samples: if \<^verbatim>\<open>mkdir\<close> raises, the run returns \<^verbatim>\<open>False\<close> and
  \<^verbatim>\<open>trained\<close> has gone from false to true; if the dump of the scaler raises, the run
  returns \<^verbatim>\<open>False\<close> and the model file saved earlier has been replaced while the scaler
  file has not.
\<close>

theorem save_failure_counterexample:
  "fst (train_prepared mkdir_fails_env False demo_X demo_y demo_timestamps demo_state) = Inr False
   \<and> \<not> trained demo_state
   \<and> trained (snd (train_prepared mkdir_fails_env False demo_X demo_y demo_timestamps demo_state))
   \<and> fst (train_prepared scaler_dump_fails_env False demo_X demo_y demo_timestamps
            persisted_state) = Inr False
   \<and> model_file (files persisted_state) = Some 7
   \<and> model_file (files (snd (train_prepared scaler_dump_fails_env False demo_X demo_y
                                 demo_timestamps persisted_state))) = Some 1
   \<and> scaler_file (files (snd (train_prepared scaler_dump_fails_env False demo_X demo_y
                                  demo_timestamps persisted_state))) = Some 7"
  by code_simp

text \<open>
  C2, amended. A run of lines 979 to 1161 that does not return \<^verbatim>\<open>True\<close> either leaves
  \<^verbatim>\<open>trained\<close> and all files as they were (a rejection, or an exception raised before the
  attributes are assigned), or it has failed in \<^verbatim>\<open>save_model\<close>: then some file-system
  operation raised, the run returned \<^verbatim>\<open>False\<close>, \<^verbatim>\<open>trained\<close> is true and is not restored,
  the report is in \<^verbatim>\<open>last_metrics\<close>, and each artifact is either as it was or replaced
  whole by the new object (the scaler file only if the model file is; the metadata file is
  as it was).
\<close>

theorem failed_run_state:
  assumes run: "train_prepared e force_single_class X y timestamps s = (res, s')"
    and failed: "res \<noteq> Inr True"
  shows "(trained s' = trained s \<and> files s' = files s)
     \<or> (res = Inr False \<and> (\<exists>step. os_raises e step)
         \<and> trained s' \<and> (\<exists>r. last_metrics s' = Report r)
         \<and> (model_file (files s') = model_file (files s)
              \<or> model_file (files s') = Some (model s'))
         \<and> (scaler_file (files s') = scaler_file (files s)
              \<or> scaler_file (files s') = Some (scaler s')
                 \<and> model_file (files s') = Some (model s'))
         \<and> meta_file (files s') = meta_file (files s))"
proof -
  define ul where "ul = np_unique y"
  define ns where "ns = (length ul < 2 \<and> force_single_class)"
  define minor where "minor = list_ex (\<lambda>count. count < 2) (map snd (counts_for ul y))"
  define mode1 where "mode1 = (if minor then NON_VALID else if ns then NON_VALID else VALID)"
  define ws where "ws = (if minor then [warning_minor] else [])"
  consider
    (rejected) "s' = s\<lparr>last_metrics := Rejected DATA_INSUFFICIENT_VARIETY NON_VALID (Counter y)\<rparr>"
  | (split_raises) "s' = s"
  | (fit_raises) p err where "fit_and_evaluate e p ul s = (Inl err, s')"
  | (committed) p ev s1 r ok where "fit_and_evaluate e p ul s = (Inr ev, s1)"
      "commit e r ev (length y) p s1 = (ok, s')" "res = Inr ok"
    using run
    by (auto simp: train_prepared_def Let_def ul_def
        split: if_splits sum.splits prod.splits)
  then show ?thesis
  proof cases
    case rejected
    then show ?thesis by simp
  next
    case split_raises
    then show ?thesis by simp
  next
    case (fit_raises p err)
    from fit_and_evaluate_frame [OF fit_raises] show ?thesis by simp
  next
    case (committed p ev s1 r ok)
    with failed have ok: "ok = False" by simp
    from fit_and_evaluate_frame [OF committed(1)]
    have fr: "files s1 = files s" by simp
    from commit_failure [OF committed(2) [unfolded ok]] committed(3) ok fr
    show ?thesis by auto
  qed
qed

theorem failed_run_state_witness:
  "\<exists>s'. train_prepared mkdir_fails_env False demo_X demo_y demo_timestamps demo_state
          = (Inr False, s')
     \<and> Inr False \<noteq> (Inr True :: error + bool)
     \<and> (\<exists>step. os_raises mkdir_fails_env step)
     \<and> trained s' \<and> (\<exists>r. last_metrics s' = Report r)
     \<and> meta_file (files s') = meta_file (files demo_state)"
proof -
  define t where
    "t = train_prepared mkdir_fails_env False demo_X demo_y demo_timestamps demo_state"
  have "fst (train_prepared mkdir_fails_env False demo_X demo_y demo_timestamps demo_state)
          = Inr False"
    by code_simp
  then have run: "train_prepared mkdir_fails_env False demo_X demo_y demo_timestamps demo_state
                    = (Inr False, snd t)"
    by (simp add: t_def prod_eq_iff)
  have ne: "Inr False \<noteq> (Inr True :: error + bool)" by simp
  have "trained (snd (train_prepared mkdir_fails_env False demo_X demo_y demo_timestamps
                        demo_state))"
    by code_simp
  then have tr: "trained (snd t)" by (simp add: t_def)
  have nt: "\<not> trained demo_state" by (simp add: demo_state_def)
  from failed_run_state [OF run ne] tr nt
  have "(\<exists>step. os_raises mkdir_fails_env step)
     \<and> trained (snd t) \<and> (\<exists>r. last_metrics (snd t) = Report r)
     \<and> meta_file (files (snd t)) = meta_file (files demo_state)"
    by auto
  with run ne show ?thesis by blast
qed

text \<open>
  C3, as stated in the specification: the split index is \<^verbatim>\<open>clamp(round(0.8n), 1, n-1)\<close>.
  The code computes \<^verbatim>\<open>int(n * 0.8)\<close>, which truncates: for 52 samples the code's index is
  41 and the split step makes partitions of 41 and 11 samples, where the specification's
  formula gives 42. (Called with these 52 readings, \<^verbatim>\<open>train_model\<close> itself raises at line
  978, before the split, as in C1.)
\<close>

theorem split_idx_round_counterexample:
  "length scenario52_timestamps = 52
   \<and> split_idx 52 = 41 \<and> spec_split_idx 52 = 42 \<and> split_idx 52 \<noteq> spec_split_idx 52
   \<and> (case chrono_split demo_env scenario52_X scenario52_y scenario52_timestamps of
         Inr p \<Rightarrow> length (X_train p) = 41 \<and> length (X_test p) = 11
       | Inl err \<Rightarrow> False)
   \<and> train_model (demo_env\<lparr>local_data := scenario52\<rparr>) False demo_state = (False, demo_state)"
proof -
  have l: "length scenario52_timestamps = 52" by code_simp
  have a: "split_idx 52 = 41" by (simp add: split_idx_div)
  have b: "spec_split_idx 52 = 42" unfolding spec_split_idx_def r52 by simp
  have c: "(case chrono_split demo_env scenario52_X scenario52_y scenario52_timestamps of
         Inr p \<Rightarrow> length (X_train p) = 41 \<and> length (X_test p) = 11
       | Inl err \<Rightarrow> False)"
    by code_simp
  from l a b c train_model_always_fails show ?thesis by simp
qed

text \<open>
  C3, amended. For every dataset of \<open>n \<ge> 2\<close> samples that reaches the split step (lines
  1038 to 1050), the orchestrator orders the sample indices ascending by resolved timestamp
  with a stable sort (samples with equal instants keep their insertion order) and splits
  at \<open>max 1 (min (n - 1) \<lfloor>0.8 n\<rfloor>)\<close>, the floor and not the rounding of \<open>0.8 n\<close>. The
  index is between 1 and \<open>n - 1\<close>; the training indices are the ones before it and the
  test indices the rest, so no training sample is later than a test sample; both are
  non-empty, they are disjoint and together they are all indices; the four arrays are the
  samples at these indices.
\<close>

theorem chrono_split_floor:
  assumes n2: "2 \<le> length timestamps"
    and lx: "length X = length timestamps" and ly: "length y = length timestamps"
  shows "\<exists>train_idx test_idx.
      chrono_indices (time_keys e timestamps) = (train_idx, test_idx)
    \<and> train_idx @ test_idx
        = sort_key (\<lambda>i. parse_ts e (timestamps ! i) i) [0..<length timestamps]
    \<and> sorted (map (\<lambda>i. parse_ts e (timestamps ! i) i) (train_idx @ test_idx))
    \<and> (\<forall>t. filter (\<lambda>i. parse_ts e (timestamps ! i) i = t) (train_idx @ test_idx)
             = filter (\<lambda>i. parse_ts e (timestamps ! i) i = t) [0..<length timestamps])
    \<and> (\<forall>i \<in> set train_idx. \<forall>j \<in> set test_idx.
          parse_ts e (timestamps ! i) i \<le> parse_ts e (timestamps ! j) j)
    \<and> split_idx (length timestamps)
        = max 1 (min (int (length timestamps) - 1) (int (4 * length timestamps div 5)))
    \<and> 1 \<le> split_idx (length timestamps)
    \<and> split_idx (length timestamps) \<le> int (length timestamps) - 1
    \<and> length train_idx = nat (split_idx (length timestamps))
    \<and> train_idx \<noteq> [] \<and> test_idx \<noteq> []
    \<and> set train_idx \<inter> set test_idx = {}
    \<and> set train_idx \<union> set test_idx = {0..<length timestamps}
    \<and> distinct (train_idx @ test_idx)
    \<and> chrono_split e X y timestamps =
          Inr \<lparr>X_train = map ((!) X) train_idx, y_train = map ((!) y) train_idx,
               X_test = map ((!) X) test_idx, y_test = map ((!) y) test_idx\<rparr>"
proof -
  define n where "n = length timestamps"
  define keys where "keys = time_keys e timestamps"
  define si where "si = sorted_indices_of keys"
  define k where "k = nat (split_idx n)"
  have len: "length keys = n"
    by (simp add: keys_def time_keys_def n_def)
  have snd_keys: "map snd keys = [0..<length keys]"
    unfolding keys_def by (rule time_keys_snd)
  have len_si: "length si = n"
    by (simp add: si_def sorted_indices_of_def len)
  have ci: "chrono_indices keys = (take k si, drop k si)"
    by (simp add: chrono_indices_def Let_def si_def k_def sorted_indices_of_def len)
  have b: "1 \<le> split_idx n" "split_idx n \<le> int n - 1"
    using split_idx_bounds n2 by (simp_all add: n_def)
  then have kb: "0 < k" "k < n" by (simp_all add: k_def)
  have fl: "split_idx n = max 1 (min (int n - 1) (int (4 * n div 5)))"
    by (rule split_idx_div)
  have set_si: "set si = {0..<n}"
    using sorted_indices_set [OF snd_keys] len by (simp add: si_def)
  have dist: "distinct si"
    using sorted_indices_distinct [OF snd_keys] by (simp add: si_def)
  have "sorted (map (\<lambda>i. fst (keys ! i)) si)"
    using sorted_indices_chronological [OF snd_keys] by (simp add: si_def)
  moreover have "map (\<lambda>i. fst (keys ! i)) si = map (\<lambda>i. parse_ts e (timestamps ! i) i) si"
    using set_si by (intro map_cong) (simp_all add: keys_def time_keys_nth n_def)
  ultimately have srt: "sorted (map (\<lambda>i. parse_ts e (timestamps ! i) i) si)"
    by simp
  have app: "take k si @ drop k si = si" by simp
  have stab: "si = sort_key (\<lambda>i. parse_ts e (timestamps ! i) i) [0..<n]"
    unfolding si_def keys_def n_def by (rule sorted_indices_stable_sort)
  have ties: "\<forall>t. filter (\<lambda>i. parse_ts e (timestamps ! i) i = t) si
             = filter (\<lambda>i. parse_ts e (timestamps ! i) i = t) [0..<n]"
    unfolding si_def keys_def n_def by (intro allI) (rule sorted_indices_ties)
  have "sorted (map (\<lambda>i. parse_ts e (timestamps ! i) i) (take k si)
                @ map (\<lambda>i. parse_ts e (timestamps ! i) i) (drop k si))"
    using srt by (metis app map_append)
  then have chron: "\<forall>i \<in> set (take k si). \<forall>j \<in> set (drop k si).
      parse_ts e (timestamps ! i) i \<le> parse_ts e (timestamps ! j) j"
    by (auto simp: sorted_append)
  have disj: "set (take k si) \<inter> set (drop k si) = {}"
    using dist by (metis app distinct_append)
  have un: "set (take k si) \<union> set (drop k si) = {0..<n}"
    using set_si by (metis app set_append)
  have ne: "take k si \<noteq> []" "drop k si \<noteq> []"
    using kb len_si by auto
  have lt: "length (take k si) = k"
    using kb len_si by simp
  have sub: "set (take k si) \<subseteq> {0..<n}" "set (drop k si) \<subseteq> {0..<n}"
    using un by auto
  have cs: "chrono_split e X y timestamps =
          Inr \<lparr>X_train = map ((!) X) (take k si), y_train = map ((!) y) (take k si),
               X_test = map ((!) X) (drop k si), y_test = map ((!) y) (drop k si)\<rparr>"
    using sub lx ly
    by (simp add: chrono_split_def keys_def [symmetric] ci np_take_ok n_def)
  show ?thesis
    using ci stab [symmetric] ties srt chron fl b lt ne disj un dist cs
    unfolding n_def [symmetric] k_def [symmetric] keys_def [symmetric]
    by (intro exI [of _ "take k si"] exI [of _ "drop k si"]) (simp add: app)
qed

theorem chrono_split_floor_witness:
  "2 \<le> length tied_timestamps
   \<and> length tied_X = length tied_timestamps \<and> length tied_y = length tied_timestamps
   \<and> split_idx (length tied_timestamps) = 4
   \<and> chrono_indices (time_keys demo_env tied_timestamps) = ([1, 3, 0, 2], [4])
   \<and> filter (\<lambda>i. parse_ts demo_env (tied_timestamps ! i) i = 20) ([1, 3, 0, 2] @ [4])
       = filter (\<lambda>i. parse_ts demo_env (tied_timestamps ! i) i = 20) [0..<5]
   \<and> chrono_split demo_env tied_X tied_y tied_timestamps =
         Inr \<lparr>X_train = map ((!) tied_X) [1, 3, 0, 2], y_train = map ((!) tied_y) [1, 3, 0, 2],
              X_test = map ((!) tied_X) [4], y_test = map ((!) tied_y) [4]\<rparr>"
proof -
  have n: "2 \<le> length tied_timestamps"
    by (simp add: tied_timestamps_def)
  have lx: "length tied_X = length tied_timestamps"
    and ly: "length tied_y = length tied_timestamps"
    by (simp_all add: tied_X_def tied_y_def tied_timestamps_def)
  have l: "length tied_timestamps = 5"
    by (simp add: tied_timestamps_def)
  have s: "split_idx 5 = 4"
    by (simp add: split_idx_div)
  have ci: "chrono_indices (time_keys demo_env tied_timestamps) = ([1, 3, 0, 2], [4])"
    by code_simp
  from chrono_split_floor [OF n lx ly, of demo_env] obtain train_idx test_idx where
    t: "chrono_indices (time_keys demo_env tied_timestamps) = (train_idx, test_idx)"
      "\<forall>t. filter (\<lambda>i. parse_ts demo_env (tied_timestamps ! i) i = t) (train_idx @ test_idx)
           = filter (\<lambda>i. parse_ts demo_env (tied_timestamps ! i) i = t)
               [0..<length tied_timestamps]"
      "chrono_split demo_env tied_X tied_y tied_timestamps =
         Inr \<lparr>X_train = map ((!) tied_X) train_idx, y_train = map ((!) tied_y) train_idx,
              X_test = map ((!) tied_X) test_idx, y_test = map ((!) tied_y) test_idx\<rparr>"
    by blast
  from t(1) ci have e: "train_idx = [1, 3, 0, 2]" "test_idx = [4]" by simp_all
  from t(2) have f: "filter (\<lambda>i. parse_ts demo_env (tied_timestamps ! i) i = 20)
                       (train_idx @ test_idx)
       = filter (\<lambda>i. parse_ts demo_env (tied_timestamps ! i) i = 20) [0..<5]"
    unfolding l by blast
  from n lx ly s ci f t(3) show ?thesis
    unfolding e l by simp
qed

text \<open>
  C4. With fewer than 50 readings the claim has the training call report the status
  \<^verbatim>\<open>DATA_TOO_SMALL\<close> in \<^verbatim>\<open>last_metrics\<close>. With 49 readings the dict of line 974 is never
  built, since \<^verbatim>\<open>Counter(y)\<close> reads a local that is not assigned yet: the call returns
  \<^verbatim>\<open>False\<close> through the \<^verbatim>\<open>except\<close> clause and \<^verbatim>\<open>last_metrics\<close> stays empty. The model
  object and the files are not changed.
\<close>

theorem too_small_status_not_recorded:
  "length (take 49 scenario_data) = 49
   \<and> train_model_try (demo_env\<lparr>local_data := take 49 scenario_data\<rparr>) False demo_state
       = (Inl UnboundLocalError, demo_state)
   \<and> train_model (demo_env\<lparr>local_data := take 49 scenario_data\<rparr>) False demo_state
       = (False, demo_state)
   \<and> last_metrics demo_state = No_metrics"
proof -
  have len: "length (take 49 scenario_data) = 49"
    by (simp add: scenario_data_def)
  have small: "length (local_data (demo_env\<lparr>local_data := take 49 scenario_data\<rparr>)) < 50"
    by (simp add: len)
  show ?thesis
    using len train_model_try_small [OF small] train_model_always_fails
    by (simp add: demo_state_def)
qed

text \<open>
  C5. For every run of lines 979 to 1161 that returns \<^verbatim>\<open>True\<close>: \<^verbatim>\<open>last_metrics\<close> is a
  report; whenever its \<^verbatim>\<open>metrics_trusted\<close> is false its \<^verbatim>\<open>evaluation_mode\<close> is
  \<^verbatim>\<open>NON_VALID\<close> and \<^verbatim>\<open>test_accuracy\<close>, \<^verbatim>\<open>macro_f1\<close> and \<^verbatim>\<open>balanced_accuracy\<close> are
  \<^verbatim>\<open>None\<close>; \<^verbatim>\<open>train_accuracy\<close> is a number, and \<^verbatim>\<open>baseline_majority_accuracy\<close> is a
  number that is at most 1.
\<close>

theorem completed_run_report:
  assumes run: "train_prepared e force_single_class X y timestamps s = (Inr True, s')"
  shows "\<exists>r. last_metrics s' = Report r
     \<and> (\<not> metrics_trusted r \<longrightarrow>
            evaluation_mode r = NON_VALID \<and> test_accuracy r = None
            \<and> macro_f1 r = None \<and> balanced_accuracy r = None)
     \<and> (\<exists>a. train_accuracy r = Some a)
     \<and> (\<exists>b. baseline_majority_accuracy r = Some b \<and> b \<le> 1)"
proof -
  define ul where "ul = np_unique y"
  define ns where "ns = (length ul < 2 \<and> force_single_class)"
  define minor where "minor = list_ex (\<lambda>count. count < 2) (map snd (counts_for ul y))"
  define mode1 where "mode1 = (if minor then NON_VALID else if ns then NON_VALID else VALID)"
  define ws where "ws = (if minor then [warning_minor] else [])"
  from run obtain p0 ev s1 where
    ev: "fit_and_evaluate e (augment e (default_rng e (time_time e)) ns p0) ul s = (Inr ev, s1)"
    and cm: "commit e
               (make_report mode1 ws ns ev ul y (augment e (default_rng e (time_time e)) ns p0))
               ev (length y) (augment e (default_rng e (time_time e)) ns p0) s1 = (True, s')"
    by (auto simp: train_prepared_def Let_def ul_def ns_def minor_def mode1_def ws_def
        split: if_splits sum.splits prod.splits)
  have m: "mode1 \<noteq> UNKNOWN" by (simp add: mode1_def)
  from commit_report [OF cm] make_report_gate [OF m refl] fit_and_evaluate_baseline [OF ev]
  show ?thesis by blast
qed

theorem completed_run_report_witness:
  "\<exists>s'. train_prepared demo_env False demo_X demo_y demo_timestamps demo_state = (Inr True, s')
     \<and> (\<exists>r. last_metrics s' = Report r
          \<and> \<not> metrics_trusted r
          \<and> evaluation_mode r = NON_VALID \<and> test_accuracy r = None
          \<and> macro_f1 r = None \<and> balanced_accuracy r = None
          \<and> (\<exists>a. train_accuracy r = Some a)
          \<and> (\<exists>b. baseline_majority_accuracy r = Some b \<and> b \<le> 1))"
proof -
  define t where "t = train_prepared demo_env False demo_X demo_y demo_timestamps demo_state"
  have "fst (train_prepared demo_env False demo_X demo_y demo_timestamps demo_state) = Inr True"
    by code_simp
  then have run: "train_prepared demo_env False demo_X demo_y demo_timestamps demo_state
                    = (Inr True, snd t)"
    by (simp add: t_def prod_eq_iff)
  have "(case last_metrics
               (snd (train_prepared demo_env False demo_X demo_y demo_timestamps demo_state)) of
           Report r \<Rightarrow> \<not> metrics_trusted r | _ \<Rightarrow> False)"
    by code_simp
  then have u: "case last_metrics (snd t) of Report r \<Rightarrow> \<not> metrics_trusted r | _ \<Rightarrow> False"
    by (simp add: t_def)
  from completed_run_report [OF run] obtain r where
    r: "last_metrics (snd t) = Report r"
      "\<not> metrics_trusted r \<longrightarrow>
         evaluation_mode r = NON_VALID \<and> test_accuracy r = None
         \<and> macro_f1 r = None \<and> balanced_accuracy r = None"
      "\<exists>a. train_accuracy r = Some a"
      "\<exists>b. baseline_majority_accuracy r = Some b \<and> b \<le> 1"
    by blast
  from u r(1) have "\<not> metrics_trusted r" by simp
  with r run show ?thesis by blast
qed

text \<open>
  C6. The augmentation step (lines 1052 to 1061: synthetic samples when requested, then
  minority oversampling) leaves the test partition as it is: \<^verbatim>\<open>X_test\<close> and \<^verbatim>\<open>y_test\<close>
  are the same arrays, of the same length, before and after, whatever the generator draws
  and whether or not synthetic samples were requested. What it adds is appended to the
  training arrays.
\<close>

theorem augment_leaves_test:
  "X_test (augment e z needs_synthetic p) = X_test p
   \<and> y_test (augment e z needs_synthetic p) = y_test p
   \<and> length (X_test (augment e z needs_synthetic p)) = length (X_test p)
   \<and> length (y_test (augment e z needs_synthetic p)) = length (y_test p)
   \<and> (\<exists>added. X_train (augment e z needs_synthetic p) = X_train p @ map fst added
              \<and> y_train (augment e z needs_synthetic p) = y_train p @ map snd added)"
  by (rule augment_frame)

theorem augment_leaves_test_witness:
  "X_test (augment demo_env (default_rng demo_env 0) True demo_partition)
     = [(24, 50, 40, 500, 3.9), (10, 40, 30, 500, 3.9)]
   \<and> y_test (augment demo_env (default_rng demo_env 0) True demo_partition) = [Normal, Cold]
   \<and> length (y_train (augment demo_env (default_rng demo_env 0) True demo_partition)) = 40"
proof -
  have "length (y_train (augment demo_env (default_rng demo_env 0) True demo_partition)) = 40"
    by code_simp
  with augment_leaves_test [of demo_env "default_rng demo_env 0" True demo_partition]
  show ?thesis by (simp add: demo_partition_def)
qed

text \<open>
  C7, as stated: every trigger received while a run is active is answered
  \<^verbatim>\<open>training_in_progress\<close>. The endpoint tests readiness before it looks at the guard
  (lines 2521 to 2531): with a run active (started by a forced request while the data are
  not ready), a request that is not forced is answered \<^verbatim>\<open>not_ready\<close>.
\<close>

theorem busy_not_ready_counterexample:
  "reachable busy \<and> running busy = 1
   \<and> train_ai_model False False True busy = (Not_ready, busy)
   \<and> fst (train_ai_model False False True busy) \<noteq> Training_in_progress"
  using busy_reachable
  by (simp add: busy_def train_ai_model_def guard_init_def)

text \<open>
  C7, amended. In every state the server can reach, at most one training run is executing.
  While a run is executing, no request starts a second one (the guard is left as it is and
  the answer is never \<^verbatim>\<open>training_started\<close>), and every request that passes the readiness
  test (ready, or \<^verbatim>\<open>force_single_class\<close> set) is answered \<^verbatim>\<open>training_in_progress\<close>;
  a request that fails the readiness test is answered \<^verbatim>\<open>not_ready\<close> and changes nothing.
  However the pipeline ends (by returning, or by raising an exception of any kind), the
  \<^verbatim>\<open>finally\<close> block has cleared \<^verbatim>\<open>ai_training_in_progress\<close>.
\<close>

theorem single_flight:
  assumes "reachable g"
  shows "running g \<le> 1
    \<and> (running g = 1 \<longrightarrow>
         snd (train_ai_model ready force_single_class thread_starts g) = g
         \<and> fst (train_ai_model ready force_single_class thread_starts g) \<noteq> Training_started
         \<and> (ready \<or> force_single_class \<longrightarrow>
              fst (train_ai_model ready force_single_class thread_starts g) = Training_in_progress))
    \<and> (\<not> ready \<and> \<not> force_single_class \<longrightarrow>
         train_ai_model ready force_single_class thread_starts g = (Not_ready, g))
    \<and> \<not> ai_training_in_progress (snd (run_train_end how g))"
  using reachable_invariant [OF assms]
  by (auto simp: train_ai_model_def run_train_end_def Let_def)

theorem single_flight_witness:
  "reachable busy \<and> running busy = 1
   \<and> train_ai_model False True True busy = (Training_in_progress, busy)
   \<and> train_ai_model False False True busy = (Not_ready, busy)
   \<and> \<not> ai_training_in_progress (snd (run_train_end Raises_Exception busy))"
proof -
  have r: "running busy = 1"
    by (simp add: busy_def train_ai_model_def guard_init_def)
  from single_flight [OF busy_reachable, of False True True Raises_Exception]
    single_flight [OF busy_reachable, of False False True Raises_Exception] r busy_reachable
  show ?thesis by (simp add: prod_eq_iff)
qed

text \<open>
  C8. The claim has \<^verbatim>\<open>prepare_training_data\<close> produce, for every item, the label that
  \<^verbatim>\<open>_label_from_features\<close> derives. For the first reading of the repository's test
  (\<open>temp=10, hum=40, aq=20\<close>) \<^verbatim>\<open>_label_from_features\<close> derives Cold, while
  \<^verbatim>\<open>prepare_training_data\<close> returns \<^verbatim>\<open>None\<close>, no label at all, and
  \<^verbatim>\<open>get_label_distribution\<close>, which unpacks that result, returns the empty dict.
\<close>

theorem prepare_training_data_no_labels:
  "prepare_training_data [test_item] = None
   \<and> get_label_distribution [test_item] = []
   \<and> label_from_features 10 40 20 = Cold
   \<and> unreachable_block [test_item]
       = ([(10, 40, 20, 0, 0)], [Cold], [TsStr ''2026-01-12T21:26:41Z''])"
  by (simp add: prepare_training_data_def get_label_distribution_def unpack3_def
      label_from_features_def unreachable_block_def unreachable_row_def test_item_def
      unreachable_condition_def to_float_safe_def py_or_def truthy_def)

text \<open>
  C9, as stated: no trend whenever the time span is not strictly greater than 0.5 minutes.
  Three points 15 seconds apart span exactly 0.5 minutes, and the code fits a line through
  them (the test of line 1345 is \<^verbatim>\<open>span < 0.5\<close>).
\<close>

theorem half_minute_counterexample:
  "length half_minute_series = 3
   \<and> span_minutes half_minute_series = 1 / 2
   \<and> \<not> span_minutes half_minute_series > 1 / 2
   \<and> fit_linear lstsq_line half_minute_series = Some (4, 22)
   \<and> fit_linear lstsq_line half_minute_series \<noteq> None"
proof -
  have a: "span_minutes half_minute_series = 1 / 2" by code_simp
  have b: "fit_linear lstsq_line half_minute_series = Some (4, 22)" by code_simp
  from a b show ?thesis by (simp add: half_minute_series_def)
qed

text \<open>
  C9, amended. For every series, \<^verbatim>\<open>_fit_linear\<close> returns \<^verbatim>\<open>None\<close> when the series has
  fewer than 3 points or when the time span of its at most 30 most recent points is
  strictly less than 0.5 minutes; otherwise (a span of 0.5 minutes or more) it returns what
  \<^verbatim>\<open>numpy.polyfit\<close> of degree 1 returns for the minutes relative to the latest point and the
  values, \<^verbatim>\<open>None\<close> if that raises. With no trend, \<^verbatim>\<open>predict_val\<close> gives the current
  value clamped to the bounds of the field, the same at every horizon.
\<close>

theorem fit_linear_trend:
  "fit_linear polyfit series =
     (if length series < 3 \<or> span_minutes series < 1/2 then None
      else polyfit (minutes_before_now series) (map snd (recent_points series)))
   \<and> predict_val now_val None horizon (Some lo) (Some hi) = min hi (max lo now_val)"
proof (cases "length series < 3")
  case True
  then show ?thesis by (simp add: fit_linear_def predict_val_def)
next
  case False
  then have ne: "series \<noteq> []" by auto
  then have "minutes_before_now series \<noteq> []"
    using recent_points_nonempty [OF ne] by (simp add: minutes_as_map)
  then obtain x rest where xs: "minutes_before_now series = x # rest"
    by (cases "minutes_before_now series") auto
  have sp: "fold max rest x - fold min rest x = span_minutes series"
    using span_of_minutes [OF ne] by (simp only: fold_max_Max fold_min_Min xs)
  have nn: "0 \<le> span_minutes series" by (rule span_nonneg [OF ne])
  have "fit_linear polyfit series =
      (if fold max rest x - fold min rest x > - (1/2) \<and> fold max rest x - fold min rest x < 1/2
       then None else polyfit (x # rest) (map snd (recent_points series)))"
    using False by (simp add: fit_linear_def Let_def xs)
  also have "\<dots> = (if span_minutes series < 1/2 then None
       else polyfit (minutes_before_now series) (map snd (recent_points series)))"
    unfolding sp xs using nn by simp
  finally show ?thesis
    using False by (simp add: predict_val_def)
qed

theorem fit_linear_trend_witness:
  "fit_linear lstsq_line [(0, 20), (10, 21), (20, 22)] = None
   \<and> fit_linear lstsq_line [(0, 20), (30, 22)] = None
   \<and> fit_linear lstsq_line [(0, 20), (30, 21), (60, 22)] = Some (2, 22)
   \<and> predict_val 70 None 60 (Some (-10)) (Some 60) = 60
   \<and> predict_val 25 None 180 (Some (-10)) (Some 60) = 25"
proof -
  have s1: "span_minutes [(0, 20), (10, 21), (20, 22)] = 1 / 3" by code_simp
  have s3: "span_minutes [(0, 20), (30, 21), (60, 22)] = 1" by code_simp
  have m3: "minutes_before_now [(0, 20), (30, 21), (60, 22)] = [-1, - (1 / 2), 0]" by code_simp
  have r3: "map snd (recent_points [(0, 20), (30, 21), (60, 22)]) = [20, 21, 22]" by code_simp
  have l3: "lstsq_line [-1, - (1 / 2), 0] [20, 21, 22] = Some (2, 22)" by code_simp
  from fit_linear_trend [of lstsq_line "[(0, 20), (10, 21), (20, 22)]" 70 60 "-10" 60]
  have a: "fit_linear lstsq_line [(0, 20), (10, 21), (20, 22)] = None"
    and p1: "predict_val 70 None 60 (Some (-10)) (Some 60) = 60"
    by (simp_all add: s1)
  from fit_linear_trend [of lstsq_line "[(0, 20), (30, 22)]" 25 180 "-10" 60]
  have b: "fit_linear lstsq_line [(0, 20), (30, 22)] = None"
    and p2: "predict_val 25 None 180 (Some (-10)) (Some 60) = 25"
    by simp_all
  from fit_linear_trend [of lstsq_line "[(0, 20), (30, 21), (60, 22)]" 25 180 "-10" 60]
  have c: "fit_linear lstsq_line [(0, 20), (30, 21), (60, 22)] = Some (2, 22)"
    by (simp add: s3 m3 r3 l3)
  from a b c p1 p2 show ?thesis by simp
qed

text \<open>
  C10. For every illuminance strictly below zero no bin of \<open>light_bins\<close> matches (the
  lowest bin starts at 0), so \<open>classify_light\<close> falls through to its default and returns
  the Clear label \<^verbatim>\<open>"Cerah"\<close>, not the Dark label \<^verbatim>\<open>"Gelap"\<close>.
\<close>

theorem classify_light_negative:
  "lux < 0 \<Longrightarrow> classify_light lux = ''Cerah'' \<and> classify_light lux \<noteq> ''Gelap''"
  by (simp add: classify_light_def light_bins_def)

theorem classify_light_negative_witness:
  "(-1::real) < 0 \<and> classify_light (-1) = ''Cerah'' \<and> classify_light (-1) \<noteq> ''Gelap''"
  using classify_light_negative [of "-1"] by simp

end
